theory Spec2Isabelle
  imports Main "HOL-Library.AList" "HOL-Library.Char_ord" "HOL-Library.List_Lexorder"
begin

section \<open>Go values\<close>

text \<open>
  A Go slice is either nil or a sequence (possibly of length 0), and
  \<^verbatim>\<open>reflect.DeepEqual\<close> tells a nil slice from an empty one. Where the
  program compares slices that way the model keeps the difference:
  \<open>None\<close> is the nil slice. \<^verbatim>\<open>append\<close> on a nil slice gives a non-nil one.
\<close>

type_synonym 'a slice = "'a list option"

definition elems :: "'a slice \<Rightarrow> 'a list" where
  "elems s = (case s of None \<Rightarrow> [] | Some xs \<Rightarrow> xs)"

definition append_slice :: "'a slice \<Rightarrow> 'a \<Rightarrow> 'a slice" where
  "append_slice s x = Some (elems s @ [x])"

text \<open>Errors the functions return as values, and the run-time panics they can raise.\<close>

datatype error =
    WatchingAll
  | WatchingSpecific
  | LabelInformerExists
  | InformersExist
  | MissingSecretField string string
  | UnexpectedType

datatype panic = IndexOutOfRange | SliceBoundsOutOfRange | NilPointer

subsection \<open>strconv\<close>

text \<open>
  \<^verbatim>\<open>strconv.ParseBool\<close> accepts exactly twelve spellings.
  \<^verbatim>\<open>strconv.ParseInt(s, 10, bitSize)\<close> reads an optional sign and decimal
  digits from left to right; the first character that is no digit is a syntax
  error with value 0, the first digit that takes the magnitude beyond the
  unsigned range is a range error, and a magnitude outside the signed range
  is clamped to the nearest bound.
\<close>

datatype numError = ErrSyntax | ErrRange

definition ParseBool :: "string \<Rightarrow> numError + bool" where
  "ParseBool str =
     (if str \<in> set [''1'', ''t'', ''T'', ''TRUE'', ''true'', ''True''] then Inr True
      else if str \<in> set [''0'', ''f'', ''F'', ''FALSE'', ''false'', ''False''] then Inr False
      else Inl ErrSyntax)"

definition isDigit :: "char \<Rightarrow> bool" where
  "isDigit d = (CHR ''0'' \<le> d \<and> d \<le> CHR ''9'')"

definition digitVal :: "char \<Rightarrow> nat" where
  "digitVal d = of_char d - 48"

fun ParseUint_digits :: "nat \<Rightarrow> nat \<Rightarrow> string \<Rightarrow> numError + nat" where
  "ParseUint_digits maxVal n [] = Inr n"
| "ParseUint_digits maxVal n (d # ds) =
     (if \<not> isDigit d then Inl ErrSyntax
      else let n1 = n * 10 + digitVal d
           in if n1 > maxVal then Inl ErrRange else ParseUint_digits maxVal n1 ds)"

definition ParseUint :: "string \<Rightarrow> nat \<Rightarrow> nat \<times> numError option" where
  "ParseUint s bitSize =
     (if s = [] then (0, Some ErrSyntax)
      else case ParseUint_digits (2 ^ bitSize - 1) 0 s of
             Inl ErrSyntax \<Rightarrow> (0, Some ErrSyntax)
           | Inl ErrRange \<Rightarrow> (2 ^ 64 - 1, Some ErrRange)
           | Inr n \<Rightarrow> (n, None))"

definition ParseInt :: "string \<Rightarrow> nat \<Rightarrow> int \<times> numError option" where
  "ParseInt s bitSize =
     (if s = [] then (0, Some ErrSyntax)
      else
        let neg = (hd s = CHR ''-'');
            s1 = (if hd s = CHR ''+'' \<or> hd s = CHR ''-'' then tl s else s);
            (un, err) = ParseUint s1 bitSize
        in if err = Some ErrSyntax then (0, err)
           else
             let cutoff = (2::nat) ^ (bitSize - 1)
             in if \<not> neg \<and> un \<ge> cutoff then (int cutoff - 1, Some ErrRange)
                else if neg \<and> un > cutoff then (- int cutoff, Some ErrRange)
                else (if neg then - int un else int un, None))"

section \<open>Orchestrator objects\<close>

text \<open>
  The objects of the orchestrator's API, with the fields the controller reads.
  A Go map that is only looked up is a partial function; a nil map answers
  every lookup with "not found", as the empty map does.
\<close>

record Secret =
  secret_Name :: string
  Data :: "string \<rightharpoonup> string"

record IngressTLS =
  SecretName :: string

record Ingress =
  ing_Name :: string
  ing_Namespace :: string
  ing_Annotations :: "string \<rightharpoonup> string"
  ing_TLS :: "IngressTLS list"

record ServicePort =
  sp_Name :: string
  sp_Port :: int
  sp_NodePort :: int

record Service =
  svc_Type :: string
  svc_Ports :: "ServicePort list"

definition ServiceTypeNodePort :: string where
  "ServiceTypeNodePort = ''NodePort''"

record EndpointPort =
  ep_Name :: string
  ep_Port :: int

record EndpointSubset =
  Addresses :: "string list"
  Ports :: "EndpointPort list"

record Endpoints =
  Subsets :: "EndpointSubset list"

record NodeAddress =
  na_Type :: string
  na_Address :: string

record Node =
  Unschedulable :: bool
  node_Addresses :: "NodeAddress list"

definition NodeInternalIP :: string where
  "NodeInternalIP = ''InternalIP''"

definition NodeExternalIP :: string where
  "NodeExternalIP = ''ExternalIP''"

record TLSConfig =
  Termination :: string
  Certificate :: string
  Key :: string
  DestinationCACertificate :: string

record Route =
  route_Name :: string
  route_Namespace :: string
  route_Host :: string
  route_To :: string
  route_TLS :: "TLSConfig option"

section \<open>Data model of the controller\<close>

record serviceQueueKey =
  q_Namespace :: string
  q_ServiceName :: string

record serviceKey =
  sk_ServiceName :: string
  sk_ServicePort :: int
  sk_Namespace :: string

record secretKey =
  sec_Name :: string
  sec_Namespace :: string
  sec_ResourceName :: string

record vsSyncStats =
  vsFound :: int
  vsUpdated :: int
  vsDeleted :: int
  cpUpdated :: int
  dgUpdated :: int

record portStruct =
  protocol :: string
  port :: int

text \<open>
  Modelled from the spec: the types \<^verbatim>\<open>ResourceConfig\<close>, \<^verbatim>\<open>Pool\<close>,
  \<^verbatim>\<open>Member\<close>, \<^verbatim>\<open>ProfileRef\<close> and \<^verbatim>\<open>CustomProfile\<close> are declared in
  another file of the package than \<^verbatim>\<open>appManager.go\<close>. The records
  carry the fields the functions below read or write (section 3 of the
  specification); policies, monitors and iRule references are not touched
  by these functions and are left out.
\<close>

datatype profileContext = customProfileClient | customProfileServer

record ProfileRef =
  pr_Name :: string
  pr_Partition :: string
  pr_Context :: profileContext

record CustomProfile =
  cp_Name :: string
  cp_Partition :: string
  cp_Context :: profileContext
  cp_Cert :: string
  cp_Key :: string
  cp_ServerName :: string

record Member =
  Address :: string
  Port :: int
  Session :: string

record Pool =
  pool_Name :: string
  ServiceName :: string
  ServicePort :: int
  Members :: "Member slice"

record metaData =
  Active :: bool
  NodePort :: int
  ResourceType :: string

record virtualAddress =
  BindAddr :: string
  va_Port :: int

record virtual =
  VirtualServerName :: string
  Partition :: string
  VirtualAddress :: "virtualAddress option"
  FrontendSslProfileNames :: "string list"
  Profiles :: "ProfileRef list"

record ResourceConfig =
  MetaData :: metaData
  Virtual :: virtual
  Pools :: "Pool list"

text \<open>The zero value \<^verbatim>\<open>Pool{}\<close>.\<close>

definition zeroPool :: Pool where
  "zeroPool = \<lparr>pool_Name = '''', ServiceName = '''', ServicePort = 0, Members = None\<rparr>"

text \<open>
  Modelled from the spec: \<^verbatim>\<open>NewCustomProfile\<close> is declared outside
  \<^verbatim>\<open>appManager.go\<close>; it builds the profile of a reference and a certificate.
\<close>

definition NewCustomProfile :: "ProfileRef \<Rightarrow> string \<Rightarrow> CustomProfile" where
  "NewCustomProfile profile cert =
     \<lparr>cp_Name = pr_Name profile, cp_Partition = pr_Partition profile,
      cp_Context = pr_Context profile, cp_Cert = cert, cp_Key = '''',
      cp_ServerName = ''''\<rparr>"

text \<open>
  Modelled from the spec: the methods \<^verbatim>\<open>AddFrontendSslProfileName\<close> and
  \<^verbatim>\<open>AddOrUpdateProfile\<close> of the virtual server are declared outside
  \<^verbatim>\<open>appManager.go\<close>. They record a profile name, respectively a profile
  reference, on the virtual server; nothing below depends on the order in
  which they keep them.
\<close>

definition AddFrontendSslProfileName :: "string \<Rightarrow> virtual \<Rightarrow> virtual" where
  "AddFrontendSslProfileName name v =
     (if name \<in> set (FrontendSslProfileNames v) then v
      else v\<lparr>FrontendSslProfileNames := FrontendSslProfileNames v @ [name]\<rparr>)"

definition AddOrUpdateProfile :: "ProfileRef \<Rightarrow> virtual \<Rightarrow> virtual" where
  "AddOrUpdateProfile prof v =
     v\<lparr>Profiles :=
        filter (\<lambda>p. \<not> (pr_Name p = pr_Name prof \<and> pr_Partition p = pr_Partition prof))
          (Profiles v) @ [prof]\<rparr>"

subsection \<open>The manager\<close>

text \<open>
  Resource configurations are shared through pointers: the store, the
  per-key resource map of a sync and the candidate of a sync can all name
  the same object, and the code mutates objects in place. The model keeps a
  heap from addresses to configurations; the store maps a service key and a
  resource name to an address. The package variable
  \<^verbatim>\<open>DEFAULT_PARTITION\<close> and the two queues (of which only the length is
  read) are carried in the state, as are the number of documents handed to
  the writer and the list of files read so far.
\<close>

type_synonym addr = nat

record appInformer =
  ai_namespace :: string
  ai_cfgMapSelector :: string
  ai_resyncPeriod :: int
  ai_routeInformer :: bool

record nsInformer =
  ns_labelSelector :: string
  ns_resyncPeriod :: int

record Manager =
  heap :: "addr \<Rightarrow> ResourceConfig option"
  resources :: "((serviceKey \<times> string) \<times> addr) list"
  customProfiles :: "secretKey \<Rightarrow> CustomProfile option"
  initialState :: bool
  useNodeInternal :: bool
  isNodePort :: bool
  oldNodes :: "string slice"
  appInformers :: "(string \<times> appInformer) list"
  nsInformer :: "nsInformer option"
  vsQueue :: "serviceQueueKey list"
  nsQueue :: "string list"
  routeClientV1 :: bool
  written :: nat
  filesRead :: "string list"
  DEFAULT_PARTITION :: string

text \<open>
  Modelled from the spec: the emitter \<^verbatim>\<open>outputConfigLocked\<close> (and
  \<^verbatim>\<open>outputConfig\<close>, which takes the lock first) is declared outside
  \<^verbatim>\<open>appManager.go\<close>. It serializes the stores into one document and
  hands it to the writer; the model records that one more document was
  handed over.
\<close>

definition outputConfigLocked :: "Manager \<Rightarrow> Manager" where
  "outputConfigLocked m = m\<lparr>written := written m + 1\<rparr>"

definition outputConfig :: "Manager \<Rightarrow> Manager" where
  "outputConfig m = outputConfigLocked m"

text \<open>
  Modelled from the spec: the constants \<^verbatim>\<open>DEFAULT_HTTP_PORT\<close> and
  \<^verbatim>\<open>DEFAULT_HTTPS_PORT\<close> are declared outside \<^verbatim>\<open>appManager.go\<close>; the
  specification gives the defaults 80 and 443.
\<close>

definition DEFAULT_HTTP_PORT :: int where
  "DEFAULT_HTTP_PORT = 80"

definition DEFAULT_HTTPS_PORT :: int where
  "DEFAULT_HTTPS_PORT = 443"

definition ingressSslRedirect :: string where
  "ingressSslRedirect = ''ingress.kubernetes.io/ssl-redirect''"

definition ingressAllowHttp :: string where
  "ingressAllowHttp = ''ingress.kubernetes.io/allow-http''"

section \<open>Namespace informers\<close>

definition watchingAllNamespacesLocked :: "Manager \<Rightarrow> bool" where
  "watchingAllNamespacesLocked m =
     (if 0 = length (appInformers m) then False
      else map_of (appInformers m) '''' \<noteq> None)"

text \<open>
  \<^verbatim>\<open>newAppInformer\<close> builds the watch caches of one namespace; the route
  cache exists only when a route client is configured.
\<close>

definition newAppInformer :: "string \<Rightarrow> string \<Rightarrow> int \<Rightarrow> Manager \<Rightarrow> appInformer" where
  "newAppInformer namespace cfgMapSelector resyncPeriod m =
     \<lparr>ai_namespace = namespace, ai_cfgMapSelector = cfgMapSelector,
      ai_resyncPeriod = resyncPeriod, ai_routeInformer = routeClientV1 m\<rparr>"

definition addNamespaceLocked ::
  "string \<Rightarrow> string \<Rightarrow> int \<Rightarrow> Manager \<Rightarrow> (error + appInformer) \<times> Manager" where
  "addNamespaceLocked namespace cfgMapSelector resyncPeriod m =
     (if watchingAllNamespacesLocked m then (Inl WatchingAll, m)
      else if length (appInformers m) > 0 \<and> '''' = namespace then (Inl WatchingSpecific, m)
      else case map_of (appInformers m) namespace of
             Some appInf \<Rightarrow> (Inr appInf, m)
           | None \<Rightarrow>
               let appInf = newAppInformer namespace cfgMapSelector resyncPeriod m
               in (Inr appInf,
                   m\<lparr>appInformers := AList.update namespace appInf (appInformers m)\<rparr>))"

definition AddNamespace ::
  "string \<Rightarrow> string \<Rightarrow> int \<Rightarrow> Manager \<Rightarrow> error option \<times> Manager" where
  "AddNamespace namespace cfgMapSelector resyncPeriod m =
     (case addNamespaceLocked namespace cfgMapSelector resyncPeriod m of
        (Inl err, m1) \<Rightarrow> (Some err, m1)
      | (Inr appInf, m1) \<Rightarrow> (None, m1))"

definition AddNamespaceLabelInformer ::
  "string \<Rightarrow> int \<Rightarrow> Manager \<Rightarrow> error option \<times> Manager" where
  "AddNamespaceLabelInformer labelSelector resyncPeriod m =
     (if nsInformer m \<noteq> None then (Some LabelInformerExists, m)
      else if 0 \<noteq> length (appInformers m) then (Some InformersExist, m)
      else (None,
            m\<lparr>nsInformer :=
                Some \<lparr>ns_labelSelector = labelSelector, ns_resyncPeriod = resyncPeriod\<rparr>\<rparr>))"

section \<open>The emission decision of syncVirtualServer\<close>

text \<open>
  The last statement of \<^verbatim>\<open>syncVirtualServer\<close>, reached when the sub-syncs
  returned no error and the unused resources and profiles were collected.
\<close>

definition syncVirtualServer_output :: "vsSyncStats \<Rightarrow> Manager \<Rightarrow> Manager" where
  "syncVirtualServer_output stats m =
     (if vsUpdated stats > 0 \<or> vsDeleted stats > 0 \<or> cpUpdated stats > 0 \<or>
         dgUpdated stats > 0
      then outputConfig m
      else if length (vsQueue m) = 0 \<and> length (nsQueue m) = 0
      then (if \<not> initialState m then outputConfigLocked m else m)
      else m)"

section \<open>TLS profiles from Secrets\<close>

definition handleSslProfile ::
  "ResourceConfig \<Rightarrow> Secret \<Rightarrow> string \<Rightarrow> Manager \<Rightarrow> (error option \<times> bool) \<times> Manager" where
  "handleSslProfile rsCfg secret namespace m =
     (case Data secret ''tls.crt'' of
        None \<Rightarrow> ((Some (MissingSecretField (secret_Name secret) ''tls.crt''), False), m)
      | Some crt \<Rightarrow>
          (case Data secret ''tls.key'' of
             None \<Rightarrow> ((Some (MissingSecretField (secret_Name secret) ''tls.key''), False), m)
           | Some key \<Rightarrow>
               let cp = \<lparr>cp_Name = secret_Name secret,
                         cp_Partition = Partition (Virtual rsCfg),
                         cp_Context = customProfileClient,
                         cp_Cert = crt, cp_Key = key, cp_ServerName = ''''\<rparr>;
                   skey = \<lparr>sec_Name = cp_Name cp, sec_Namespace = namespace,
                           sec_ResourceName = VirtualServerName (Virtual rsCfg)\<rparr>
               in (case customProfiles m skey of
                     Some prof \<Rightarrow>
                       if prof \<noteq> cp
                       then ((None, True),
                             m\<lparr>customProfiles := (customProfiles m)(skey \<mapsto> cp)\<rparr>)
                       else ((None, False), m)
                   | None \<Rightarrow>
                       ((None, False),
                        m\<lparr>customProfiles := (customProfiles m)(skey \<mapsto> cp)\<rparr>))))"

section \<open>Ports of an Ingress\<close>

definition getBooleanAnnotation :: "(string \<rightharpoonup> string) \<Rightarrow> string \<Rightarrow> bool \<Rightarrow> bool" where
  "getBooleanAnnotation annotations key defaultValue =
     (case annotations key of
        None \<Rightarrow> defaultValue
      | Some val \<Rightarrow>
          (case ParseBool val of Inl err \<Rightarrow> defaultValue | Inr bVal \<Rightarrow> bVal))"

definition virtualPorts :: "Ingress \<Rightarrow> portStruct list" where
  "virtualPorts ing =
     (let httpPort =
            (case ing_Annotations ing ''virtual-server.f5.com/http-port'' of
               Some p \<Rightarrow> fst (ParseInt p 32)
             | None \<Rightarrow> DEFAULT_HTTP_PORT);
          httpsPort =
            (case ing_Annotations ing ''virtual-server.f5.com/https-port'' of
               Some p \<Rightarrow> fst (ParseInt p 32)
             | None \<Rightarrow> DEFAULT_HTTPS_PORT);
          sslRedirect = getBooleanAnnotation (ing_Annotations ing) ingressSslRedirect True;
          allowHttp = getBooleanAnnotation (ing_Annotations ing) ingressAllowHttp False;
          http = \<lparr>protocol = ''http'', port = httpPort\<rparr>;
          https = \<lparr>protocol = ''https'', port = httpsPort\<rparr>
      in if length (ing_TLS ing) > 0
         then (if sslRedirect \<or> allowHttp then [http, https] else [https])
         else [http])"

section \<open>The resource store\<close>

text \<open>A panic ends the function that raises it and every caller.\<close>

definition bindP :: "panic + 'a \<Rightarrow> ('a \<Rightarrow> panic + 'b) \<Rightarrow> panic + 'b" where
  "bindP r f = (case r of Inl p \<Rightarrow> Inl p | Inr x \<Rightarrow> f x)"

text \<open>
  Modelled from the spec: the store \<^verbatim>\<open>Resources\<close>, a guarded mapping from
  service key and resource name to a configuration, is declared outside
  \<^verbatim>\<open>appManager.go\<close>. The model is an association list from the pair of
  key and name to the address of the configuration, with the operations
  the code calls: \<^verbatim>\<open>Get\<close>, \<^verbatim>\<open>Assign\<close>, \<^verbatim>\<open>GetAllWithName\<close> (the
  configurations stored under a name, with their keys) and \<^verbatim>\<open>ForEach\<close>.
\<close>

definition Get :: "serviceKey \<Rightarrow> string \<Rightarrow> Manager \<Rightarrow> addr option" where
  "Get key name m = map_of (resources m) (key, name)"

definition Assign :: "serviceKey \<Rightarrow> string \<Rightarrow> addr \<Rightarrow> Manager \<Rightarrow> Manager" where
  "Assign key name cfg m = m\<lparr>resources := AList.update (key, name) cfg (resources m)\<rparr>"

definition GetAllWithName :: "string \<Rightarrow> Manager \<Rightarrow> addr list \<times> serviceKey list" where
  "GetAllWithName name m =
     (let entries = filter (\<lambda>e. snd (fst e) = name) (resources m)
      in (map snd entries, map (\<lambda>e. fst (fst e)) entries))"

fun ForEach ::
  "(serviceKey \<Rightarrow> addr \<Rightarrow> Manager \<Rightarrow> panic + Manager) \<Rightarrow>
   ((serviceKey \<times> string) \<times> addr) list \<Rightarrow> Manager \<Rightarrow> panic + Manager" where
  "ForEach f [] m = Inr m"
| "ForEach f (e # rest) m = bindP (f (fst (fst e)) (snd e) m) (ForEach f rest)"

text \<open>
  \<^verbatim>\<open>reflect.DeepEqual\<close> on two pointers: the same pointer, or deeply equal
  pointees. An address outside the heap stands for the nil pointer. The
  comparison is on the modelled fields only: two configurations that differ
  in a field the records leave out (policies, monitors, iRules), or of which
  one has a nil and the other an empty \<^verbatim>\<open>Pools\<close> slice, are equal here
  and different for \<^verbatim>\<open>reflect.DeepEqual\<close>. The theorems below do not
  depend on this: the general ones fix the stored configuration and leave
  open whether the function reports a change, and in the evaluations either
  no entry is stored or the two configurations differ in a modelled field.
\<close>

definition DeepEqual :: "Manager \<Rightarrow> addr \<Rightarrow> addr \<Rightarrow> bool" where
  "DeepEqual m p q = (p = q \<or> heap m p = heap m q)"

text \<open>An update in place of the configuration a pointer names.\<close>

definition updateCfg ::
  "addr \<Rightarrow> (ResourceConfig \<Rightarrow> panic + ResourceConfig) \<Rightarrow> Manager \<Rightarrow> panic + Manager" where
  "updateCfg a f m =
     (case heap m a of
        None \<Rightarrow> Inl NilPointer
      | Some cfg \<Rightarrow> bindP (f cfg) (\<lambda>cfg1. Inr (m\<lparr>heap := (heap m)(a \<mapsto> cfg1)\<rparr>)))"

text \<open>The assignment \<^verbatim>\<open>cfg.Pools[index].Members = ms\<close>.\<close>

definition setPoolMembers :: "nat \<Rightarrow> Member slice \<Rightarrow> ResourceConfig \<Rightarrow> panic + ResourceConfig" where
  "setPoolMembers index ms cfg =
     (if index < length (Pools cfg)
      then Inr (cfg\<lparr>Pools := (Pools cfg)[index := (Pools cfg ! index)\<lparr>Members := ms\<rparr>]\<rparr>)
      else Inl IndexOutOfRange)"

section \<open>Saving and deactivating a virtual server\<close>

definition deactivateVirtualServer ::
  "serviceKey \<Rightarrow> string \<Rightarrow> addr \<Rightarrow> nat \<Rightarrow> Manager \<Rightarrow> panic + (bool \<times> Manager)" where
  "deactivateVirtualServer sKey rsName rsCfg index m =
     (case Get sKey rsName m of
        Some rs \<Rightarrow>
          bindP
            (updateCfg rsCfg
               (\<lambda>cfg. setPoolMembers index None
                        (cfg\<lparr>MetaData := (MetaData cfg)\<lparr>Active := False\<rparr>\<rparr>)) m)
            (\<lambda>m1. let updateConfig = \<not> DeepEqual m1 rs rsCfg
                  in Inr (updateConfig,
                          if updateConfig then Assign sKey rsName rsCfg m1 else m1))
      | None \<Rightarrow> Inr (True, Assign sKey rsName rsCfg m))"

definition saveVirtualServer ::
  "serviceKey \<Rightarrow> string \<Rightarrow> addr \<Rightarrow> Manager \<Rightarrow> bool \<times> Manager" where
  "saveVirtualServer sKey rsName newRsCfg m =
     (case Get sKey rsName m of
        Some oldRsCfg \<Rightarrow>
          if DeepEqual m oldRsCfg newRsCfg then (False, m)
          else (True, Assign sKey rsName newRsCfg m)
      | None \<Rightarrow> (True, Assign sKey rsName newRsCfg m))"

section \<open>Pool members\<close>

definition newMember :: "string \<Rightarrow> int \<Rightarrow> Member" where
  "newMember a p = \<lparr>Address = a, Port = p, Session = ''user-enabled''\<rparr>"

definition getNodesFromCache :: "Manager \<Rightarrow> string list" where
  "getNodesFromCache m = elems (oldNodes m)"

definition getEndpointsForNodePort :: "int \<Rightarrow> Manager \<Rightarrow> Member slice" where
  "getEndpointsForNodePort nodePort m =
     foldl (\<lambda>members v. append_slice members (newMember v nodePort)) None
       (getNodesFromCache m)"

definition getEndpointsForService :: "string \<Rightarrow> Endpoints option \<Rightarrow> Member slice" where
  "getEndpointsForService portName eps =
     (case eps of
        None \<Rightarrow> None
      | Some e \<Rightarrow>
          foldl (\<lambda>members subset.
                   foldl (\<lambda>members p.
                            if portName = ep_Name p
                            then foldl (\<lambda>members addr.
                                          append_slice members (newMember addr (ep_Port p)))
                                   members (Addresses subset)
                            else members)
                     members (Ports subset))
            None (Subsets e))"

definition updatePoolMembersForNodePort ::
  "Service \<Rightarrow> serviceKey \<Rightarrow> addr \<Rightarrow> nat \<Rightarrow> Manager \<Rightarrow>
   panic + ((bool \<times> string \<times> string) \<times> Manager)" where
  "updatePoolMembersForNodePort svc svcKey rsCfg index m =
     (if svc_Type svc = ServiceTypeNodePort
      then
        bindP
          (foldl (\<lambda>r portSpec.
                    bindP r (\<lambda>m1.
                      if sp_Port portSpec = sk_ServicePort svcKey
                      then updateCfg rsCfg
                             (\<lambda>cfg. setPoolMembers index
                                      (getEndpointsForNodePort (sp_NodePort portSpec) m1)
                                      (cfg\<lparr>MetaData := (MetaData cfg)
                                             \<lparr>Active := True,
                                              NodePort := sp_NodePort portSpec\<rparr>\<rparr>)) m1
                      else Inr m1))
             (Inr m) (svc_Ports svc))
          (\<lambda>m1. Inr ((True, '''', ''''), m1))
      else Inr ((False, ''IncorrectBackendServiceType'',
                 ''Requested service backend '' @ [CHR 0x27] @ sk_ServiceName svcKey @
                 [CHR 0x27] @ '' not of NodePort type''), m))"

definition updatePoolMembersForCluster ::
  "Service \<Rightarrow> serviceKey \<Rightarrow> addr \<Rightarrow> (string \<rightharpoonup> Endpoints) \<Rightarrow> nat \<Rightarrow> Manager \<Rightarrow>
   panic + ((bool \<times> string \<times> string) \<times> Manager)" where
  "updatePoolMembersForCluster svc sKey rsCfg endptStore index m =
     (let svcKey = sk_Namespace sKey @ ''/'' @ sk_ServiceName sKey
      in case endptStore svcKey of
           None \<Rightarrow>
             Inr ((False, ''EndpointsNotFound'',
                   ''Endpoints for service '' @ [CHR 0x27] @ svcKey @ [CHR 0x27] @
                   '' not found!''), m)
         | Some eps \<Rightarrow>
             bindP
               (foldl (\<lambda>r portSpec.
                         bindP r (\<lambda>m1.
                           if sp_Port portSpec = sk_ServicePort sKey
                           then updateCfg rsCfg
                                  (\<lambda>cfg. setPoolMembers index
                                           (getEndpointsForService (sp_Name portSpec) (Some eps))
                                           (cfg\<lparr>MetaData := (MetaData cfg)\<lparr>Active := True\<rparr>\<rparr>))
                                  m1
                           else Inr m1))
                  (Inr m) (svc_Ports svc))
               (\<lambda>m1. Inr ((True, '''', ''''), m1)))"

section \<open>handleConfigForType\<close>

text \<open>
  Two loops of \<^verbatim>\<open>handleConfigForType\<close> delete from a slice while ranging
  over it. A \<^verbatim>\<open>range\<close> loop fixes the slice header when it starts: it visits
  the indices below the original length and reads each element from the
  backing array when its turn comes, so it sees the elements a deletion has
  shifted. The loops are modelled on the backing array \<open>backing\<close> (whose
  length never changes) and the current length \<open>len\<close> of the slice.

  The first loop removes the pools of a service:
  \<^verbatim>\<open>copy(cfg.Pools[j:], cfg.Pools[j+1:])\<close>, then the last element is zeroed
  and the slice shortened. The slice expression \<^verbatim>\<open>cfg.Pools[j+1:]\<close> panics
  when \<open>j + 1\<close> exceeds the current length.
\<close>

fun removePoolsLoop ::
  "string \<Rightarrow> nat list \<Rightarrow> Pool list \<Rightarrow> nat \<Rightarrow> panic + (Pool list \<times> nat)" where
  "removePoolsLoop svc [] backing len = Inr (backing, len)"
| "removePoolsLoop svc (j # js) backing len =
     (if ServiceName (backing ! j) = svc
      then (if j + 1 > len then Inl SliceBoundsOutOfRange
            else removePoolsLoop svc js
                   (take j backing @ take (len - (j + 1)) (drop (j + 1) backing) @
                    [zeroPool] @ drop len backing)
                   (len - 1))
      else removePoolsLoop svc js backing len)"

definition removeServicePools :: "string \<Rightarrow> ResourceConfig \<Rightarrow> panic + ResourceConfig" where
  "removeServicePools svc cfg =
     bindP (removePoolsLoop svc [0..<length (Pools cfg)] (Pools cfg) (length (Pools cfg)))
       (\<lambda>(backing, len). Inr (cfg\<lparr>Pools := take len backing\<rparr>))"

fun removeFromStored ::
  "string \<Rightarrow> string \<Rightarrow> (addr \<times> serviceKey) list \<Rightarrow> Manager \<Rightarrow> panic + Manager" where
  "removeFromStored svc rsName [] m = Inr m"
| "removeFromStored svc rsName (e # rest) m =
     bindP (updateCfg (fst e) (removeServicePools svc) m)
       (\<lambda>m1. removeFromStored svc rsName rest (Assign (snd e) rsName (fst e) m1))"

text \<open>
  The second loop takes the configuration with the resource's name out of
  the candidates for deletion:
  \<^verbatim>\<open>cfgList = append(cfgList[:index], cfgList[index+1:]...)\<close> shifts the tail
  in place and leaves the last slot of the backing array as it was.
\<close>

type_synonym ResourceMap = "int \<Rightarrow> addr list option"

fun removeCfgLoop ::
  "(addr \<Rightarrow> ResourceConfig option) \<Rightarrow> string \<Rightarrow> nat list \<Rightarrow> addr list \<Rightarrow> nat \<Rightarrow>
   panic + (addr list \<times> nat)" where
  "removeCfgLoop h rsName [] backing len = Inr (backing, len)"
| "removeCfgLoop h rsName (i # is) backing len =
     (case h (backing ! i) of
        None \<Rightarrow> Inl NilPointer
      | Some val \<Rightarrow>
          if VirtualServerName (Virtual val) = rsName
          then (if i + 1 > len then Inl SliceBoundsOutOfRange
                else removeCfgLoop h rsName is
                       (take i backing @ take (len - (i + 1)) (drop (i + 1) backing) @
                        drop (len - 1) backing)
                       (len - 1))
          else removeCfgLoop h rsName is backing len)"

definition consumeResourceMap ::
  "(addr \<Rightarrow> ResourceConfig option) \<Rightarrow> ResourceMap \<Rightarrow> int \<Rightarrow> string \<Rightarrow> panic + ResourceMap" where
  "consumeResourceMap h rsMap p rsName =
     (let cfgList = (case rsMap p of None \<Rightarrow> [] | Some l \<Rightarrow> l)
      in if length cfgList = 1 then Inr (rsMap(p := None))
         else if length cfgList > 1
         then bindP (removeCfgLoop h rsName [0..<length cfgList] cfgList (length cfgList))
                (\<lambda>(backing, len). Inr (rsMap(p \<mapsto> take len backing)))
         else Inr rsMap)"

fun findPool :: "string \<Rightarrow> Pool list \<Rightarrow> nat \<Rightarrow> (Pool \<times> nat) option" where
  "findPool svc [] i = None"
| "findPool svc (pl # pls) i =
     (if ServiceName pl = svc then Some (pl, i) else findPool svc pls (Suc i))"

definition HasSuffix :: "string \<Rightarrow> string \<Rightarrow> bool" where
  "HasSuffix s suffix =
     (length suffix \<le> length s \<and> drop (length s - length suffix) s = suffix)"

text \<open>
  \<^verbatim>\<open>recordIngressEvent\<close> called without an Ingress cuts the name of the
  Ingress out of the resource name,
  \<^verbatim>\<open>rsName[len(namespace)+1 : len(rsName)-len("-ingress")]\<close>, which panics
  when the bounds cross. The event itself goes to the orchestrator and is
  not part of the model.
\<close>

definition recordIngressEvent_nil :: "string \<Rightarrow> 'a \<Rightarrow> panic + 'a" where
  "recordIngressEvent_nil rsName x =
     (let namespace = takeWhile (\<lambda>c. c \<noteq> CHR ''_'') rsName
      in if length namespace + 1 + length ''-ingress'' > length rsName
         then Inl SliceBoundsOutOfRange else Inr x)"

definition handleConfigForType ::
  "addr \<Rightarrow> serviceQueueKey \<Rightarrow> ResourceMap \<Rightarrow> string \<Rightarrow> (int \<Rightarrow> bool option) \<Rightarrow>
   Service option \<Rightarrow> (string \<rightharpoonup> Endpoints) \<Rightarrow> string \<Rightarrow> Manager \<Rightarrow>
   panic + ((bool \<times> int \<times> int) \<times> ResourceMap \<times> Manager)" where
  "handleConfigForType rsCfg sKey rsMap rsName svcPortMap svc endptStore currRouteSvc m =
     (case heap m rsCfg of
        None \<Rightarrow> Inl NilPointer
      | Some cfg \<Rightarrow>
          (case findPool (q_ServiceName sKey) (Pools cfg) 0 of
             None \<Rightarrow>
               bindP
                 (removeFromStored (q_ServiceName sKey) rsName
                    (zip (fst (GetAllWithName rsName m)) (snd (GetAllWithName rsName m))) m)
                 (\<lambda>m1. Inr ((False, 0, 0), rsMap, m1))
           | Some (pool, plIdx) \<Rightarrow>
               let svcKey = \<lparr>sk_ServiceName = ServiceName pool,
                             sk_ServicePort = ServicePort pool,
                             sk_Namespace = q_Namespace sKey\<rparr>
               in
               bindP
                 (if currRouteSvc = '''' \<or> currRouteSvc = q_ServiceName sKey
                  then consumeResourceMap (heap m) rsMap (ServicePort pool) rsName
                  else Inr rsMap)
                 (\<lambda>rsMap1.
               bindP
                 (if svcPortMap (ServicePort pool) = None
                  then deactivateVirtualServer svcKey rsName rsCfg plIdx m
                  else Inr (False, m))
                 (\<lambda>(deactivated1, m1).
               let vsUpdated1 = (if deactivated1 then 1 else 0)
               in
               case svc of
                 None \<Rightarrow>
                   bindP (deactivateVirtualServer svcKey rsName rsCfg plIdx m1)
                     (\<lambda>(deactivated2, m2).
                   bindP
                     (if HasSuffix rsName ''ingress'' then recordIngressEvent_nil rsName m2
                      else Inr m2)
                     (\<lambda>m3. Inr ((False, 0,
                                  vsUpdated1 + (if deactivated2 then 1 else 0)),
                                 rsMap1, m3)))
               | Some s \<Rightarrow>
                   bindP
                     (if isNodePort m1
                      then updatePoolMembersForNodePort s svcKey rsCfg plIdx m1
                      else updatePoolMembersForCluster s svcKey rsCfg endptStore plIdx m1)
                     (\<lambda>((correctBackend, reason, msg), m2).
                   case saveVirtualServer svcKey rsName rsCfg m2 of
                     (saved, m3) \<Rightarrow>
                       bindP
                         (if saved \<and> \<not> correctBackend \<and>
                             HasSuffix
                               (case heap m3 rsCfg of
                                  None \<Rightarrow> '''' | Some c \<Rightarrow> VirtualServerName (Virtual c))
                               ''ingress''
                          then recordIngressEvent_nil
                                 (case heap m3 rsCfg of
                                    None \<Rightarrow> '''' | Some c \<Rightarrow> VirtualServerName (Virtual c))
                                 m3
                          else Inr m3)
                         (\<lambda>m4. Inr ((True, 1, vsUpdated1 + (if saved then 1 else 0)),
                                     rsMap1, m4)))))))"

section \<open>Collecting unused profiles\<close>

text \<open>
  \<^verbatim>\<open>deleteUnusedProfiles\<close> visits every entry of the profile store and
  deletes it unless some stored configuration has the resource name of the
  entry's key, the key's namespace is the namespace of the sync, and the
  virtual server of that configuration references the profile. The method
  \<^verbatim>\<open>ReferencesProfile\<close> is declared outside \<^verbatim>\<open>appManager.go\<close> and is a
  parameter.
\<close>

definition deleteUnusedProfiles ::
  "(virtual \<Rightarrow> CustomProfile \<Rightarrow> bool) \<Rightarrow> string \<Rightarrow> Manager \<Rightarrow> Manager" where
  "deleteUnusedProfiles ReferencesProfile namespace m =
     m\<lparr>customProfiles :=
         (\<lambda>key. case customProfiles m key of
                  None \<Rightarrow> None
                | Some profile \<Rightarrow>
                    if list_ex
                         (\<lambda>e. case heap m (snd e) of
                                None \<Rightarrow> False
                              | Some rsCfg \<Rightarrow>
                                  sec_ResourceName key = VirtualServerName (Virtual rsCfg) \<and>
                                  sec_Namespace key = namespace \<and>
                                  ReferencesProfile (Virtual rsCfg) profile)
                         (resources m)
                    then Some profile else None)\<rparr>"

section \<open>Counting the result of handleConfigForType\<close>

definition processAllMultiSvc :: "nat \<Rightarrow> string \<Rightarrow> Manager \<Rightarrow> bool" where
  "processAllMultiSvc numPools rsName m =
     (if length (snd (GetAllWithName rsName m)) \<noteq> numPools then False else True)"

text \<open>
  The statement of \<^verbatim>\<open>syncConfigMaps\<close>, \<^verbatim>\<open>syncIngresses\<close> and
  \<^verbatim>\<open>syncRoutes\<close> that calls \<^verbatim>\<open>handleConfigForType\<close> and adds its counts to
  the statistics of the sync. The first component of the result tells
  whether the loop body goes on after the statement (it does not after
  \<^verbatim>\<open>continue\<close>).
\<close>

definition syncConfigMaps_handleConfig ::
  "vsSyncStats \<Rightarrow> addr \<Rightarrow> serviceQueueKey \<Rightarrow> ResourceMap \<Rightarrow> string \<Rightarrow>
   (int \<Rightarrow> bool option) \<Rightarrow> Service option \<Rightarrow> (string \<rightharpoonup> Endpoints) \<Rightarrow> Manager \<Rightarrow>
   panic + (bool \<times> vsSyncStats \<times> ResourceMap \<times> Manager)" where
  "syncConfigMaps_handleConfig stats rsCfg sKey rsMap rsName svcPortMap svc endptStore m =
     bindP (handleConfigForType rsCfg sKey rsMap rsName svcPortMap svc endptStore '''' m)
       (\<lambda>((ok, found, updated), rsMap1, m1).
          if \<not> ok
          then Inr (False, stats\<lparr>vsUpdated := vsUpdated stats + updated\<rparr>, rsMap1, m1)
          else Inr (True,
                    stats\<lparr>vsFound := vsFound stats + found,
                          vsUpdated := vsUpdated stats + updated\<rparr>, rsMap1, m1))"

definition syncIngresses_handleConfig ::
  "vsSyncStats \<Rightarrow> addr \<Rightarrow> serviceQueueKey \<Rightarrow> ResourceMap \<Rightarrow> string \<Rightarrow>
   (int \<Rightarrow> bool option) \<Rightarrow> Service option \<Rightarrow> (string \<rightharpoonup> Endpoints) \<Rightarrow> Manager \<Rightarrow>
   panic + (bool \<times> vsSyncStats \<times> ResourceMap \<times> Manager)" where
  "syncIngresses_handleConfig stats rsCfg sKey rsMap rsName svcPortMap svc endptStore m =
     bindP (handleConfigForType rsCfg sKey rsMap rsName svcPortMap svc endptStore '''' m)
       (\<lambda>((ok, found, updated), rsMap1, m1).
          if \<not> ok
          then Inr (False, stats\<lparr>vsUpdated := vsUpdated stats + updated\<rparr>, rsMap1, m1)
          else
            (case heap m1 rsCfg of
               None \<Rightarrow> Inl NilPointer
             | Some cfg \<Rightarrow>
                 let updated1 =
                       (if updated > 0 \<and>
                           \<not> processAllMultiSvc (length (Pools cfg))
                               (VirtualServerName (Virtual cfg)) m1
                        then updated - 1 else updated)
                 in Inr (True,
                         stats\<lparr>vsFound := vsFound stats + found,
                               vsUpdated := vsUpdated stats + updated1\<rparr>, rsMap1, m1)))"

definition syncRoutes_handleConfig ::
  "vsSyncStats \<Rightarrow> addr \<Rightarrow> serviceQueueKey \<Rightarrow> ResourceMap \<Rightarrow> string \<Rightarrow>
   (int \<Rightarrow> bool option) \<Rightarrow> Service option \<Rightarrow> (string \<rightharpoonup> Endpoints) \<Rightarrow> string \<Rightarrow>
   Manager \<Rightarrow> panic + (bool \<times> vsSyncStats \<times> ResourceMap \<times> Manager)" where
  "syncRoutes_handleConfig stats rsCfg sKey rsMap rsName svcPortMap svc endptStore routeTo m =
     bindP (handleConfigForType rsCfg sKey rsMap rsName svcPortMap svc endptStore routeTo m)
       (\<lambda>((ok, found, updated), rsMap1, m1).
          if \<not> ok
          then Inr (False, stats\<lparr>vsUpdated := vsUpdated stats + updated\<rparr>, rsMap1, m1)
          else Inr (True,
                    stats\<lparr>vsFound := vsFound stats + found,
                          vsUpdated := vsUpdated stats + updated\<rparr>, rsMap1, m1))"

section \<open>The invariant of inactive configurations\<close>

text \<open>
  The invariant the specification states of the store: a configuration that
  is not active has no members in any of its pools.
\<close>

definition inactiveHasNoMembers :: "ResourceConfig \<Rightarrow> bool" where
  "inactiveHasNoMembers cfg =
     (if Active (MetaData cfg) then True
      else list_all (\<lambda>p. elems (Members p) = []) (Pools cfg))"

definition storedConfigs :: "Manager \<Rightarrow> ResourceConfig option list" where
  "storedConfigs m = map (\<lambda>e. heap m (snd e)) (resources m)"

definition storeInvariant :: "Manager \<Rightarrow> bool" where
  "storeInvariant m =
     list_all (\<lambda>c. case c of None \<Rightarrow> False | Some cfg \<Rightarrow> inactiveHasNoMembers cfg)
       (storedConfigs m)"

section \<open>Node updates\<close>

datatype nodeObj = NodeList "Node list" | OtherObj

definition getNodeAddresses :: "nodeObj \<Rightarrow> Manager \<Rightarrow> error + string list" where
  "getNodeAddresses obj m =
     (case obj of
        OtherObj \<Rightarrow> Inl UnexpectedType
      | NodeList nodes \<Rightarrow>
          let addrType = (if useNodeInternal m then NodeInternalIP else NodeExternalIP)
          in Inr (foldl (\<lambda>addrs node.
                          if Unschedulable node then addrs
                          else foldl (\<lambda>addrs addr.
                                        if na_Type addr = addrType
                                        then addrs @ [na_Address addr] else addrs)
                                 addrs (node_Addresses node))
                    [] nodes))"

definition nodeMembers :: "string list \<Rightarrow> int \<Rightarrow> Member slice" where
  "nodeMembers newNodes nodePort =
     foldl (\<lambda>members node. append_slice members (newMember node nodePort)) None newNodes"

definition ProcessNodeUpdate :: "nodeObj \<Rightarrow> error option \<Rightarrow> Manager \<Rightarrow> panic + Manager" where
  "ProcessNodeUpdate obj err m =
     (if err \<noteq> None then Inr m
      else case getNodeAddresses obj m of
             Inl e \<Rightarrow> Inr m
           | Inr addrs \<Rightarrow>
               let newNodes = sort addrs
               in if initialState m
                  then (if \<not> (oldNodes m = Some newNodes)
                        then bindP
                               (ForEach
                                  (\<lambda>key cfg.
                                     updateCfg cfg
                                       (\<lambda>c. setPoolMembers 0
                                              (nodeMembers newNodes (NodePort (MetaData c))) c))
                                  (resources m) m)
                               (\<lambda>m1. Inr ((outputConfigLocked m1)\<lparr>oldNodes := Some newNodes\<rparr>))
                        else Inr m)
                  else Inr (m\<lparr>oldNodes := Some newNodes\<rparr>))"

section \<open>The default server certificate of re-encrypt routes\<close>

text \<open>
  The file system is a parameter \<open>fs\<close> of the functions that read it: a
  path with no entry cannot be read. Every call of \<^verbatim>\<open>ioutil.ReadFile\<close>
  is recorded in the state. The helper \<^verbatim>\<open>formatRouteRuleName\<close> is declared
  outside \<^verbatim>\<open>appManager.go\<close> and is a parameter as well.
\<close>

definition defaultCertPath :: string where
  "defaultCertPath = ''/var/run/secrets/kubernetes.io/serviceaccount/service-ca.crt''"

definition defaultCertProfileName :: string where
  "defaultCertProfileName = ''openshift_route_cluster_default-server-ssl''"

definition loadDefaultCert ::
  "(string \<rightharpoonup> string) \<Rightarrow> string \<Rightarrow> Manager \<Rightarrow> (ProfileRef option \<times> bool) \<times> Manager" where
  "loadDefaultCert fs namespace m =
     (let profileName = defaultCertProfileName;
          profile = \<lparr>pr_Name = profileName, pr_Partition = DEFAULT_PARTITION m,
                     pr_Context = customProfileServer\<rparr>;
          skey = \<lparr>sec_Name = profileName, sec_Namespace = namespace, sec_ResourceName = ''''\<rparr>
      in case customProfiles m skey of
           Some p \<Rightarrow> ((Some profile, False), m)
         | None \<Rightarrow>
             let path = defaultCertPath;
                 m1 = m\<lparr>filesRead := filesRead m @ [path]\<rparr>
             in (case fs path of
                   None \<Rightarrow> ((None, False), m1)
                 | Some data \<Rightarrow>
                     ((Some profile, True),
                      m1\<lparr>customProfiles :=
                           (customProfiles m1)(skey \<mapsto> NewCustomProfile profile data)\<rparr>)))"

definition setServerSslProfile ::
  "(Route \<Rightarrow> string) \<Rightarrow> (string \<rightharpoonup> string) \<Rightarrow> vsSyncStats \<Rightarrow> serviceQueueKey \<Rightarrow> addr \<Rightarrow>
   Route \<Rightarrow> Manager \<Rightarrow> panic + (vsSyncStats \<times> Manager)" where
  "setServerSslProfile formatRouteRuleName fs stats sKey rsCfg route m =
     (case route_TLS route of
        None \<Rightarrow> Inl NilPointer
      | Some tls \<Rightarrow>
          if '''' \<noteq> DestinationCACertificate tls
          then
            (case heap m rsCfg of
               None \<Rightarrow> Inl NilPointer
             | Some cfg \<Rightarrow>
                 let ruleName = formatRouteRuleName route;
                     profile = \<lparr>pr_Name = ruleName @ ''-server-ssl'',
                                pr_Partition = Partition (Virtual cfg),
                                pr_Context = customProfileServer\<rparr>;
                     cp = NewCustomProfile profile (DestinationCACertificate tls);
                     skey = \<lparr>sec_Name = cp_Name cp, sec_Namespace = q_Namespace sKey,
                             sec_ResourceName = VirtualServerName (Virtual cfg)\<rparr>;
                     stats1 = (case customProfiles m skey of
                                 Some prof \<Rightarrow>
                                   if prof \<noteq> cp
                                   then stats\<lparr>cpUpdated := cpUpdated stats + 1\<rparr>
                                   else stats
                               | None \<Rightarrow> stats)
                 in Inr (stats1,
                         m\<lparr>customProfiles := (customProfiles m)(skey \<mapsto> cp),
                           heap := (heap m)(rsCfg \<mapsto>
                             cfg\<lparr>Virtual := AddOrUpdateProfile profile (Virtual cfg)\<rparr>)\<rparr>))
          else
            (case loadDefaultCert fs (q_Namespace sKey) m of
               ((profile, added), m1) \<Rightarrow>
                 bindP
                   (case profile of
                      None \<Rightarrow> Inr m1
                    | Some p \<Rightarrow>
                        updateCfg rsCfg
                          (\<lambda>cfg. Inr (cfg\<lparr>Virtual := AddOrUpdateProfile p (Virtual cfg)\<rparr>)) m1)
                   (\<lambda>m2. Inr (if added then stats\<lparr>cpUpdated := cpUpdated stats + 1\<rparr>
                               else stats, m2))))"

text \<open>
  The steps of \<^verbatim>\<open>syncVirtualServer\<close> that touch the default certificate
  when the namespace of the key has one re-encrypt route: the statistics of
  the sync start at zero, \<^verbatim>\<open>syncRoutes\<close> calls \<^verbatim>\<open>setServerSslProfile\<close>
  for the route, on the configuration that \<^verbatim>\<open>handleConfigForType\<close> has
  stored, and \<^verbatim>\<open>deleteUnusedProfiles\<close> ends the sync before the
  statistics decide on the emission. The other steps of the sync are left
  out: they store profiles under keys that carry a resource name and do not
  read or write the entry of the default certificate.
\<close>

definition syncVirtualServer_reencrypt ::
  "(virtual \<Rightarrow> CustomProfile \<Rightarrow> bool) \<Rightarrow> (Route \<Rightarrow> string) \<Rightarrow> (string \<rightharpoonup> string) \<Rightarrow>
   serviceQueueKey \<Rightarrow> addr \<Rightarrow> Route \<Rightarrow> Manager \<Rightarrow> panic + (vsSyncStats \<times> Manager)" where
  "syncVirtualServer_reencrypt ReferencesProfile formatRouteRuleName fs sKey rsCfg route m =
     bindP
       (setServerSslProfile formatRouteRuleName fs
          \<lparr>vsFound = 0, vsUpdated = 0, vsDeleted = 0, cpUpdated = 0, dgUpdated = 0\<rparr>
          sKey rsCfg route m)
       (\<lambda>r. Inr (fst r, deleteUnusedProfiles ReferencesProfile (q_Namespace sKey) (snd r)))"

section \<open>TLS of an Ingress\<close>

text \<open>
  The Secrets of the orchestrator are a parameter \<open>secrets\<close> (namespace,
  then name); the helper \<^verbatim>\<open>formatIngressSslProfileName\<close> is declared
  outside \<^verbatim>\<open>appManager.go\<close> and is a parameter too. The loop over the TLS
  entries carries the two local variables \<^verbatim>\<open>cpUpdated\<close> and
  \<^verbatim>\<open>updateState\<close>.
\<close>

fun handleIngressTls_loop ::
  "(string \<Rightarrow> string) \<Rightarrow> (string \<Rightarrow> string \<rightharpoonup> Secret) \<Rightarrow> addr \<Rightarrow> Ingress \<Rightarrow>
   IngressTLS list \<Rightarrow> bool \<Rightarrow> bool \<Rightarrow> Manager \<Rightarrow> panic + ((bool \<times> bool) \<times> Manager)" where
  "handleIngressTls_loop fmt secrets rsCfg ing [] cpUpd updateState m =
     Inr ((cpUpd, updateState), m)"
| "handleIngressTls_loop fmt secrets rsCfg ing (tls # rest) cpUpd updateState m =
     (case heap m rsCfg of
        None \<Rightarrow> Inl NilPointer
      | Some cfg \<Rightarrow>
          (case secrets (ing_Namespace ing) (SecretName tls) of
             None \<Rightarrow>
               handleIngressTls_loop fmt secrets rsCfg ing rest cpUpd updateState
                 (m\<lparr>heap := (heap m)(rsCfg \<mapsto>
                      cfg\<lparr>Virtual :=
                            AddFrontendSslProfileName (fmt (SecretName tls)) (Virtual cfg)\<rparr>)\<rparr>)
           | Some secret \<Rightarrow>
               (case handleSslProfile cfg secret (ing_Namespace ing) m of
                  ((Some err, cpUpd1), m1) \<Rightarrow>
                    handleIngressTls_loop fmt secrets rsCfg ing rest cpUpd1 updateState m1
                | ((None, cpUpd1), m1) \<Rightarrow>
                    handleIngressTls_loop fmt secrets rsCfg ing rest cpUpd1
                      (updateState \<or> cpUpd1)
                      (m1\<lparr>heap := (heap m1)(rsCfg \<mapsto>
                            cfg\<lparr>Virtual :=
                                  AddFrontendSslProfileName
                                    (fmt (Partition (Virtual cfg) @ ''/'' @ SecretName tls))
                                    (Virtual cfg)\<rparr>)\<rparr>))))"

definition ingressHttpsPort :: "Ingress \<Rightarrow> int" where
  "ingressHttpsPort ing =
     (case ing_Annotations ing ''virtual-server.f5.com/https-port'' of
        Some p \<Rightarrow> fst (ParseInt p 32)
      | None \<Rightarrow> DEFAULT_HTTPS_PORT)"

text \<open>
  On the HTTP virtual server the function only attaches the redirect iRule,
  which is outside the modelled state, and returns false.
\<close>

definition handleIngressTls ::
  "(string \<Rightarrow> string) \<Rightarrow> (string \<Rightarrow> string \<rightharpoonup> Secret) \<Rightarrow> addr \<Rightarrow> Ingress \<Rightarrow> Manager \<Rightarrow>
   panic + (bool \<times> Manager)" where
  "handleIngressTls fmt secrets rsCfg ing m =
     (if 0 = length (ing_TLS ing) then Inr (False, m)
      else case heap m rsCfg of
             None \<Rightarrow> Inl NilPointer
           | Some cfg \<Rightarrow>
               (case VirtualAddress (Virtual cfg) of
                  None \<Rightarrow> Inr (False, m)
                | Some va \<Rightarrow>
                    if BindAddr va = '''' then Inr (False, m)
                    else if va_Port va = ingressHttpsPort ing
                    then bindP
                           (handleIngressTls_loop fmt secrets rsCfg ing (ing_TLS ing)
                              False False m)
                           (\<lambda>((cpUpd, updateState), m1). Inr (cpUpd, m1))
                    else Inr (False, m)))"

text \<open>The statement of \<^verbatim>\<open>syncIngresses\<close> that counts the result.\<close>

definition syncIngresses_handleTls ::
  "(string \<Rightarrow> string) \<Rightarrow> (string \<Rightarrow> string \<rightharpoonup> Secret) \<Rightarrow> vsSyncStats \<Rightarrow> addr \<Rightarrow> Ingress \<Rightarrow>
   Manager \<Rightarrow> panic + (vsSyncStats \<times> Manager)" where
  "syncIngresses_handleTls fmt secrets stats rsCfg ing m =
     bindP (handleIngressTls fmt secrets rsCfg ing m)
       (\<lambda>(updated, m1).
          Inr (if updated then stats\<lparr>cpUpdated := cpUpdated stats + 1\<rparr> else stats, m1))"

section \<open>A new manager\<close>

text \<open>
  \<^verbatim>\<open>NewManager\<close> starts with empty stores and queues, no informer and no
  node list; the flags come from the parameters.
\<close>

record Params =
  RouteClientV1 :: bool
  UseNodeInternal :: bool
  IsNodePort :: bool
  InitialState :: bool
  Partition0 :: string

definition NewManager :: "Params \<Rightarrow> Manager" where
  "NewManager params =
     \<lparr>heap = (\<lambda>a. None), resources = [], customProfiles = (\<lambda>k. None),
      initialState = InitialState params, useNodeInternal = UseNodeInternal params,
      isNodePort = IsNodePort params, oldNodes = None, appInformers = [],
      nsInformer = None, vsQueue = [], nsQueue = [],
      routeClientV1 = RouteClientV1 params, written = 0, filesRead = [],
      DEFAULT_PARTITION = Partition0 params\<rparr>"

definition defaultParams :: Params where
  "defaultParams =
     \<lparr>RouteClientV1 = False, UseNodeInternal = True, IsNodePort = True,
      InitialState = False, Partition0 = ''k8s''\<rparr>"

section \<open>Example objects\<close>

text \<open>Concrete objects on which the theorems below are instantiated.\<close>

definition exampleSecret :: Secret where
  "exampleSecret =
     \<lparr>secret_Name = ''web-tls'',
      Data = [''tls.crt'' \<mapsto> ''CERT'', ''tls.key'' \<mapsto> ''KEY'']\<rparr>"

definition exampleVirtual :: virtual where
  "exampleVirtual =
     \<lparr>VirtualServerName = ''default_web'', Partition = ''k8s'',
      VirtualAddress = Some \<lparr>BindAddr = ''10.0.0.10'', va_Port = 443\<rparr>,
      FrontendSslProfileNames = [], Profiles = []\<rparr>"

definition examplePool :: "string \<Rightarrow> int \<Rightarrow> Member slice \<Rightarrow> Pool" where
  "examplePool svc p ms =
     \<lparr>pool_Name = svc, ServiceName = svc, ServicePort = p, Members = ms\<rparr>"

definition exampleConfig :: "bool \<Rightarrow> Pool list \<Rightarrow> ResourceConfig" where
  "exampleConfig act pools =
     \<lparr>MetaData = \<lparr>Active = act, NodePort = 30080, ResourceType = ''configmap''\<rparr>,
      Virtual = exampleVirtual, Pools = pools\<rparr>"

definition exampleIngress :: "(string \<rightharpoonup> string) \<Rightarrow> IngressTLS list \<Rightarrow> Ingress" where
  "exampleIngress ann tls =
     \<lparr>ing_Name = ''web'', ing_Namespace = ''default'', ing_Annotations = ann,
      ing_TLS = tls\<rparr>"

definition exampleKey :: "string \<Rightarrow> int \<Rightarrow> serviceKey" where
  "exampleKey svc p = \<lparr>sk_ServiceName = svc, sk_ServicePort = p, sk_Namespace = ''default''\<rparr>"

definition exampleQueueKey :: "string \<Rightarrow> serviceQueueKey" where
  "exampleQueueKey svc = \<lparr>q_Namespace = ''default'', q_ServiceName = svc\<rparr>"

definition exampleInformer :: "string \<Rightarrow> appInformer" where
  "exampleInformer ns =
     \<lparr>ai_namespace = ns, ai_cfgMapSelector = ''f5type in (virtual-server)'',
      ai_resyncPeriod = 0, ai_routeInformer = False\<rparr>"

definition exampleNode :: "string \<Rightarrow> bool \<Rightarrow> Node" where
  "exampleNode ip unsched =
     \<lparr>Unschedulable = unsched,
      node_Addresses = [\<lparr>na_Type = ''Hostname'', na_Address = ''node''\<rparr>,
                        \<lparr>na_Type = ''InternalIP'', na_Address = ip\<rparr>]\<rparr>"

text \<open>
  A manager that holds one configuration, of one pool with one member, for
  port 80 of the service \<open>foo\<close>.
\<close>

definition exampleStore :: Manager where
  "exampleStore =
     (NewManager defaultParams)
       \<lparr>heap := [0 \<mapsto> exampleConfig True
                         [examplePool ''foo'' 80 (Some [newMember ''10.0.0.1'' 30080])]],
        resources := [((exampleKey ''foo'' 80, ''default_web''), 0)]\<rparr>"

text \<open>
  A manager that holds one active configuration with two pools, both with a
  member, for port 80 of the service \<open>foo\<close>; address 1 is a candidate
  with the same content, as a sync builds it.
\<close>

definition twoPoolConfig :: ResourceConfig where
  "twoPoolConfig =
     exampleConfig True
       [examplePool ''foo'' 80 (Some [newMember ''10.0.0.1'' 30080]),
        examplePool ''bar'' 80 (Some [newMember ''10.0.0.1'' 30090])]"

definition twoPoolStore :: Manager where
  "twoPoolStore =
     (NewManager defaultParams)
       \<lparr>heap := [0 \<mapsto> twoPoolConfig, 1 \<mapsto> twoPoolConfig],
        resources := [((exampleKey ''foo'' 80, ''default_web''), 0)]\<rparr>"

text \<open>
  A manager whose stored configuration has two adjacent pools for the
  service \<open>foo\<close> (ports 80 and 8080) and one for \<open>bar\<close>; address 1 holds
  a candidate that has no pool for \<open>foo\<close> any more.
\<close>

definition adjacentPoolsStore :: Manager where
  "adjacentPoolsStore =
     (NewManager defaultParams)
       \<lparr>heap := [0 \<mapsto> exampleConfig True
                         [examplePool ''foo'' 80 None, examplePool ''foo'' 8080 None,
                          examplePool ''bar'' 80 None],
                 1 \<mapsto> exampleConfig True [examplePool ''bar'' 80 None]],
        resources := [((exampleKey ''foo'' 80, ''default_web''), 0)]\<rparr>"

text \<open>
  A manager with an empty store and, at address 1, the candidate a sync
  built for the service \<open>foo\<close>.
\<close>

definition candidateOnly :: Manager where
  "candidateOnly =
     (NewManager defaultParams)
       \<lparr>heap := [1 \<mapsto> exampleConfig False [examplePool ''foo'' 80 None]]\<rparr>"

definition zeroStats :: vsSyncStats where
  "zeroStats = \<lparr>vsFound = 0, vsUpdated = 0, vsDeleted = 0, cpUpdated = 0, dgUpdated = 0\<rparr>"

text \<open>
  The same candidate in a manager that has recorded one node, and the
  NodePort service \<open>foo\<close> it points to.
\<close>

definition candidateWithNode :: Manager where
  "candidateWithNode = candidateOnly\<lparr>oldNodes := Some [''10.0.0.1'']\<rparr>"

definition exampleService :: Service where
  "exampleService =
     \<lparr>svc_Type = ''NodePort'',
      svc_Ports = [\<lparr>sp_Name = ''http'', sp_Port = 80, sp_NodePort = 30080\<rparr>]\<rparr>"

definition savedConfig :: ResourceConfig where
  "savedConfig =
     exampleConfig True [examplePool ''foo'' 80 (Some [newMember ''10.0.0.1'' 30080])]"

text \<open>A re-encrypt route that names no destination CA certificate.\<close>

definition exampleRoute :: Route where
  "exampleRoute =
     \<lparr>route_Name = ''secure'', route_Namespace = ''default'', route_Host = ''a.example'',
      route_To = ''foo'',
      route_TLS = Some \<lparr>Termination = ''reencrypt'', Certificate = '''', Key = '''',
                         DestinationCACertificate = ''''\<rparr>\<rparr>"

definition exampleFiles :: "string \<rightharpoonup> string" where
  "exampleFiles =
     [''/var/run/secrets/kubernetes.io/serviceaccount/service-ca.crt'' \<mapsto> ''CA'']"

text \<open>
  An Ingress with two TLS entries whose Secrets both exist. The profile
  store already holds a profile for each: the one of \<open>web-tls\<close> with an
  older certificate, the one of \<open>api-tls\<close> as the Secret has it now.
\<close>

definition exampleSecrets :: "string \<Rightarrow> string \<rightharpoonup> Secret" where
  "exampleSecrets ns =
     (if ns = ''default''
      then [''web-tls'' \<mapsto> exampleSecret,
            ''api-tls'' \<mapsto> exampleSecret\<lparr>secret_Name := ''api-tls''\<rparr>]
      else Map.empty)"

definition twoTlsIngress :: Ingress where
  "twoTlsIngress =
     exampleIngress Map.empty [\<lparr>SecretName = ''web-tls''\<rparr>, \<lparr>SecretName = ''api-tls''\<rparr>]"

definition exampleProfile :: "string \<Rightarrow> string \<Rightarrow> CustomProfile" where
  "exampleProfile name cert =
     \<lparr>cp_Name = name, cp_Partition = ''k8s'', cp_Context = customProfileClient,
      cp_Cert = cert, cp_Key = ''KEY'', cp_ServerName = ''''\<rparr>"

definition exampleSecretKey :: "string \<Rightarrow> secretKey" where
  "exampleSecretKey name =
     \<lparr>sec_Name = name, sec_Namespace = ''default'', sec_ResourceName = ''default_web''\<rparr>"

definition tlsStore :: Manager where
  "tlsStore =
     candidateOnly
       \<lparr>customProfiles :=
          [exampleSecretKey ''web-tls'' \<mapsto> exampleProfile ''web-tls'' ''OLD'',
           exampleSecretKey ''api-tls'' \<mapsto> exampleProfile ''api-tls'' ''CERT'']\<rparr>"

text \<open>
  An Ingress with one TLS entry that moves HTTPS to port 8443 and switches
  the redirect off, and an Ingress whose second TLS entry names a Secret
  that does not exist.
\<close>

definition annotatedIngress :: Ingress where
  "annotatedIngress =
     exampleIngress
       [''virtual-server.f5.com/https-port'' \<mapsto> ''8443'',
        ''ingress.kubernetes.io/ssl-redirect'' \<mapsto> ''false'']
       [\<lparr>SecretName = ''web-tls''\<rparr>]"

definition missingLastIngress :: Ingress where
  "missingLastIngress =
     exampleIngress Map.empty [\<lparr>SecretName = ''web-tls''\<rparr>, \<lparr>SecretName = ''missing-tls''\<rparr>]"

definition missingAfterIngress :: Ingress where
  "missingAfterIngress =
     exampleIngress Map.empty
       [\<lparr>SecretName = ''web-tls''\<rparr>, \<lparr>SecretName = ''api-tls''\<rparr>,
        \<lparr>SecretName = ''missing-tls''\<rparr>]"

definition missingOnlyIngress :: Ingress where
  "missingOnlyIngress = exampleIngress Map.empty [\<lparr>SecretName = ''missing-tls''\<rparr>]"

definition defaultCertProfile :: ProfileRef where
  "defaultCertProfile =
     \<lparr>pr_Name = ''openshift_route_cluster_default-server-ssl'', pr_Partition = ''k8s'',
      pr_Context = customProfileServer\<rparr>"

definition afterFirstSync :: Manager where
  "afterFirstSync =
     exampleStore
       \<lparr>heap := [0 \<mapsto> (exampleConfig True
                          [examplePool ''foo'' 80 (Some [newMember ''10.0.0.1'' 30080])])
                       \<lparr>Virtual := AddOrUpdateProfile defaultCertProfile exampleVirtual\<rparr>],
        filesRead := [''/var/run/secrets/kubernetes.io/serviceaccount/service-ca.crt'']\<rparr>"

section \<open>Descriptions used in the theorems\<close>

text \<open>The number a string of decimal digits denotes.\<close>

definition decimalValue :: "string \<Rightarrow> nat" where
  "decimalValue s = foldl (\<lambda>n c. 10 * n + (of_char c - 48)) 0 s"

text \<open>
  The specification's description of the node list: the addresses, of the
  configured type, of the nodes that are schedulable, in the order of the
  nodes. It is compared with what \<^verbatim>\<open>getNodeAddresses\<close> computes.
\<close>

definition schedulableAddresses :: "bool \<Rightarrow> Node list \<Rightarrow> string list" where
  "schedulableAddresses internal nodes =
     concat (map (\<lambda>n. map na_Address
                         (filter (\<lambda>a. na_Type a = (if internal then ''InternalIP'' else ''ExternalIP''))
                            (node_Addresses n)))
               (filter (\<lambda>n. \<not> Unschedulable n) nodes))"

text \<open>What one step of the loop of \<^verbatim>\<open>ProcessNodeUpdate\<close> does to a configuration with a pool.\<close>

definition setNodeMembers :: "string list \<Rightarrow> ResourceConfig \<Rightarrow> ResourceConfig" where
  "setNodeMembers newNodes c =
     c\<lparr>Pools := (Pools c)[0 := (Pools c ! 0)\<lparr>Members := nodeMembers newNodes (NodePort (MetaData c))\<rparr>]\<rparr>"

text \<open>
  Calls of \<^verbatim>\<open>setServerSslProfile\<close> that follow one another directly, one
  route after the other (each with a key and a candidate configuration), as
  the loop of \<^verbatim>\<open>syncRoutes\<close> makes them for the routes of one sync. The
  collection of unused profiles that ends every sync is not part of such a
  run.
\<close>

fun setServerSslProfile_each ::
  "(Route \<Rightarrow> string) \<Rightarrow> (string \<rightharpoonup> string) \<Rightarrow> (serviceQueueKey \<times> addr \<times> Route) list \<Rightarrow>
   vsSyncStats \<Rightarrow> Manager \<Rightarrow> panic + (vsSyncStats \<times> Manager)" where
  "setServerSslProfile_each fmt fs [] stats m = Inr (stats, m)"
| "setServerSslProfile_each fmt fs (c # cs) stats m =
     bindP (setServerSslProfile fmt fs stats (fst c) (fst (snd c)) (snd (snd c)) m)
       (\<lambda>r. setServerSslProfile_each fmt fs cs (fst r) (snd r))"

text \<open>The key under which the default certificate of a namespace is stored.\<close>

definition defaultCertKey :: "string \<Rightarrow> secretKey" where
  "defaultCertKey namespace =
     \<lparr>sec_Name = ''openshift_route_cluster_default-server-ssl'', sec_Namespace = namespace,
      sec_ResourceName = ''''\<rparr>"

section \<open>Theorems\<close>

subsection \<open>When syncVirtualServer emits the configuration\<close>

text \<open>
  Claim C1, as the code has it: after the sub-syncs and the garbage
  collection, \<^verbatim>\<open>syncVirtualServer\<close> hands one document to the writer if at
  least one of the counters \<open>vsUpdated\<close>, \<open>vsDeleted\<close>, \<open>cpUpdated\<close>,
  \<open>dgUpdated\<close> is greater than zero, or else if both queues are empty and
  the initial-state flag is false; in every other case it hands over
  nothing. The counter \<open>vsFound\<close> plays no part.
\<close>

theorem syncVirtualServer_output_written:
  "written (syncVirtualServer_output stats m) =
     (if vsUpdated stats > 0 \<or> vsDeleted stats > 0 \<or> cpUpdated stats > 0 \<or>
         dgUpdated stats > 0 \<or>
         (vsQueue m = [] \<and> nsQueue m = [] \<and> \<not> initialState m)
      then written m + 1 else written m)"
  by (simp add: syncVirtualServer_output_def outputConfig_def outputConfigLocked_def)

text \<open>
  Claim C1 as stated counts \<open>vsFound\<close> among the counters that trigger an
  emission. With \<open>vsFound = 1\<close>, every other counter zero and one key
  waiting in the virtual-server queue, nothing is written.
\<close>

theorem syncVirtualServer_output_found_only:
  "vsFound \<lparr>vsFound = 1, vsUpdated = 0, vsDeleted = 0, cpUpdated = 0, dgUpdated = 0\<rparr> \<noteq> 0 \<and>
   written (syncVirtualServer_output
      \<lparr>vsFound = 1, vsUpdated = 0, vsDeleted = 0, cpUpdated = 0, dgUpdated = 0\<rparr>
      ((NewManager defaultParams)
         \<lparr>vsQueue := [\<lparr>q_Namespace = ''default'', q_ServiceName = ''foo''\<rparr>]\<rparr>)) =
   written ((NewManager defaultParams)
         \<lparr>vsQueue := [\<lparr>q_Namespace = ''default'', q_ServiceName = ''foo''\<rparr>]\<rparr>)"
  by (simp add: syncVirtualServer_output_def NewManager_def)

subsection \<open>handleSslProfile\<close>

text \<open>
  Claim C4: \<^verbatim>\<open>handleSslProfile\<close> returns an error exactly when the data of
  the Secret lacks \<open>tls.crt\<close> or \<open>tls.key\<close>, and then leaves the profile
  store as it was. Otherwise the store holds, under the key made of the
  Secret's name, the namespace and the name of the virtual server, the
  client-context profile built from the Secret, and the function reports an
  update exactly when that key held a different profile before: neither the
  first insertion nor an overwrite with the same profile is an update.
\<close>

theorem handleSslProfile_contract:
  "((fst (fst (handleSslProfile rsCfg secret ns m)) \<noteq> None) =
      (Data secret ''tls.crt'' = None \<or> Data secret ''tls.key'' = None)) \<and>
   (Data secret ''tls.crt'' = Some crt \<and> Data secret ''tls.key'' = Some key \<longrightarrow>
      customProfiles (snd (handleSslProfile rsCfg secret ns m)) =
        (customProfiles m)
          (\<lparr>sec_Name = secret_Name secret, sec_Namespace = ns,
            sec_ResourceName = VirtualServerName (Virtual rsCfg)\<rparr> \<mapsto>
           \<lparr>cp_Name = secret_Name secret, cp_Partition = Partition (Virtual rsCfg),
            cp_Context = customProfileClient, cp_Cert = crt, cp_Key = key,
            cp_ServerName = ''''\<rparr>) \<and>
      snd (fst (handleSslProfile rsCfg secret ns m)) =
        (case customProfiles m
                \<lparr>sec_Name = secret_Name secret, sec_Namespace = ns,
                 sec_ResourceName = VirtualServerName (Virtual rsCfg)\<rparr> of
           None \<Rightarrow> False
         | Some old \<Rightarrow>
             old \<noteq> \<lparr>cp_Name = secret_Name secret, cp_Partition = Partition (Virtual rsCfg),
                     cp_Context = customProfileClient, cp_Cert = crt, cp_Key = key,
                     cp_ServerName = ''''\<rparr>)) \<and>
   (Data secret ''tls.crt'' = None \<or> Data secret ''tls.key'' = None \<longrightarrow>
      snd (handleSslProfile rsCfg secret ns m) = m \<and>
      \<not> snd (fst (handleSslProfile rsCfg secret ns m)))"
proof (intro conjI impI)
  show "(fst (fst (handleSslProfile rsCfg secret ns m)) \<noteq> None) =
      (Data secret ''tls.crt'' = None \<or> Data secret ''tls.key'' = None)"
    by (auto simp: handleSslProfile_def Let_def split: option.splits)
next
  assume a: "Data secret ''tls.crt'' = Some crt \<and> Data secret ''tls.key'' = Some key"
  show "customProfiles (snd (handleSslProfile rsCfg secret ns m)) =
        (customProfiles m)
          (\<lparr>sec_Name = secret_Name secret, sec_Namespace = ns,
            sec_ResourceName = VirtualServerName (Virtual rsCfg)\<rparr> \<mapsto>
           \<lparr>cp_Name = secret_Name secret, cp_Partition = Partition (Virtual rsCfg),
            cp_Context = customProfileClient, cp_Cert = crt, cp_Key = key,
            cp_ServerName = ''''\<rparr>)"
    using a by (auto simp: handleSslProfile_def Let_def fun_upd_idem split: option.splits)
  show "snd (fst (handleSslProfile rsCfg secret ns m)) =
        (case customProfiles m
                \<lparr>sec_Name = secret_Name secret, sec_Namespace = ns,
                 sec_ResourceName = VirtualServerName (Virtual rsCfg)\<rparr> of
           None \<Rightarrow> False
         | Some old \<Rightarrow>
             old \<noteq> \<lparr>cp_Name = secret_Name secret, cp_Partition = Partition (Virtual rsCfg),
                     cp_Context = customProfileClient, cp_Cert = crt, cp_Key = key,
                     cp_ServerName = ''''\<rparr>)"
    using a by (auto simp: handleSslProfile_def Let_def split: option.splits)
next
  assume a: "Data secret ''tls.crt'' = None \<or> Data secret ''tls.key'' = None"
  show "snd (handleSslProfile rsCfg secret ns m) = m"
    using a by (auto simp: handleSslProfile_def split: option.splits)
  show "\<not> snd (fst (handleSslProfile rsCfg secret ns m))"
    using a by (auto simp: handleSslProfile_def split: option.splits)
qed

theorem handleSslProfile_contract_witness:
  "Data exampleSecret ''tls.crt'' = Some ''CERT'' \<and>
   Data exampleSecret ''tls.key'' = Some ''KEY'' \<and>
   fst (fst (handleSslProfile (exampleConfig True []) exampleSecret ''default''
               (NewManager defaultParams))) = None \<and>
   \<not> snd (fst (handleSslProfile (exampleConfig True []) exampleSecret ''default''
               (NewManager defaultParams))) \<and>
   customProfiles (snd (handleSslProfile (exampleConfig True []) exampleSecret ''default''
               (NewManager defaultParams)))
     \<lparr>sec_Name = ''web-tls'', sec_Namespace = ''default'', sec_ResourceName = ''default_web''\<rparr> =
     Some \<lparr>cp_Name = ''web-tls'', cp_Partition = ''k8s'', cp_Context = customProfileClient,
           cp_Cert = ''CERT'', cp_Key = ''KEY'', cp_ServerName = ''''\<rparr> \<and>
   Data (exampleSecret\<lparr>Data := [''tls.crt'' \<mapsto> ''CERT'']\<rparr>) ''tls.key'' = None \<and>
   fst (fst (handleSslProfile (exampleConfig True []) (exampleSecret\<lparr>Data := [''tls.crt'' \<mapsto> ''CERT'']\<rparr>)
               ''default'' (NewManager defaultParams))) \<noteq> None"
  using handleSslProfile_contract
          [of "exampleConfig True []" exampleSecret "''default''" "NewManager defaultParams"
              "''CERT''" "''KEY''"]
        handleSslProfile_contract
          [of "exampleConfig True []" "exampleSecret\<lparr>Data := [''tls.crt'' \<mapsto> ''CERT'']\<rparr>"
              "''default''" "NewManager defaultParams" "''CERT''" "''KEY''"]
  by (simp add: exampleSecret_def exampleConfig_def exampleVirtual_def NewManager_def)

subsection \<open>virtualPorts\<close>

lemma decimal_digit_isDigit: "c \<in> set ''0123456789'' \<Longrightarrow> isDigit c"
  by (auto simp: isDigit_def)

lemma decimal_fold_mono:
  "(n::nat) \<le> foldl (\<lambda>n c. 10 * n + (of_char c - 48)) n ds"
proof (induction ds arbitrary: n)
  case Nil
  show ?case by simp
next
  case (Cons d ds)
  have "n \<le> 10 * n + (of_char d - 48)" by simp
  also have "\<dots> \<le> foldl (\<lambda>n c. 10 * n + (of_char c - 48)) (10 * n + (of_char d - 48)) ds"
    by (rule Cons.IH)
  finally show ?case by simp
qed

lemma ParseUint_digits_value:
  "set ds \<subseteq> set ''0123456789'' \<Longrightarrow>
   foldl (\<lambda>n c. 10 * n + (of_char c - 48)) n ds \<le> maxVal \<Longrightarrow>
   ParseUint_digits maxVal n ds = Inr (foldl (\<lambda>n c. 10 * n + (of_char c - 48)) n ds)"
proof (induction ds arbitrary: n)
  case Nil
  show ?case by simp
next
  case (Cons d ds)
  have d: "isDigit d" using Cons.prems(1) by (intro decimal_digit_isDigit) simp
  have step: "n * 10 + digitVal d = 10 * n + (of_char d - 48)"
    by (simp add: digitVal_def)
  have "10 * n + (of_char d - 48) \<le>
          foldl (\<lambda>n c. 10 * n + (of_char c - 48)) (10 * n + (of_char d - 48)) ds"
    by (rule decimal_fold_mono)
  with Cons.prems(2) have small: "10 * n + (of_char d - 48) \<le> maxVal" by simp
  have rest: "ParseUint_digits maxVal (10 * n + (of_char d - 48)) ds =
      Inr (foldl (\<lambda>n c. 10 * n + (of_char c - 48)) (10 * n + (of_char d - 48)) ds)"
    using Cons.prems by (intro Cons.IH) simp_all
  show ?case using d small rest by (simp add: step Let_def)
qed

lemma ParseInt_decimal:
  assumes "p \<noteq> []" "set p \<subseteq> set ''0123456789''" "decimalValue p < 2147483648"
  shows "ParseInt p 32 = (int (decimalValue p), None)"
proof -
  from assms(1,2) have "hd p \<in> set ''0123456789''" by (cases p) auto
  then have nosign: "hd p \<noteq> CHR ''+''" "hd p \<noteq> CHR ''-''" by auto
  have "ParseUint_digits (2 ^ 32 - 1) 0 p = Inr (decimalValue p)"
    unfolding decimalValue_def using assms(2,3)
    by (intro ParseUint_digits_value) (simp_all add: decimalValue_def)
  then have "ParseUint p 32 = (decimalValue p, None)"
    using assms(1) by (simp add: ParseUint_def)
  then show ?thesis
    using assms(1,3) nosign by (simp add: ParseInt_def Let_def)
qed

text \<open>
  Claim C5: the ports of an Ingress. Without TLS entries
  \<^verbatim>\<open>virtualPorts\<close> returns the HTTP port alone; with TLS entries it returns
  HTTP and HTTPS when \<open>sslRedirect\<close> or \<open>allowHttp\<close> is true, and HTTPS alone
  when both are false. \<open>sslRedirect\<close> is the annotation
  \<open>ingress.kubernetes.io/ssl-redirect\<close> and is true unless its value is one
  that \<^verbatim>\<open>strconv.ParseBool\<close> reads as false; \<open>allowHttp\<close> is the annotation
  \<open>ingress.kubernetes.io/allow-http\<close> and is false unless its value is one
  that \<^verbatim>\<open>strconv.ParseBool\<close> reads as true. The port numbers are 80 and 443
  unless the annotations \<open>virtual-server.f5.com/http-port\<close> and
  \<open>virtual-server.f5.com/https-port\<close> are present, and then they are what
  \<^verbatim>\<open>strconv.ParseInt\<close> reads from the value: for a string of decimal
  digits below \<open>2^31\<close>, the number it writes. \<^verbatim>\<open>getBooleanAnnotation\<close>
  gives the default when the annotation is absent or is no boolean.
\<close>

theorem virtualPorts_cases:
  "virtualPorts ing =
     (if ing_TLS ing = []
      then [\<lparr>protocol = ''http'',
             port = (case ing_Annotations ing ''virtual-server.f5.com/http-port'' of
                       None \<Rightarrow> 80 | Some p \<Rightarrow> fst (ParseInt p 32))\<rparr>]
      else if (case ing_Annotations ing ''ingress.kubernetes.io/ssl-redirect'' of
                 None \<Rightarrow> True
               | Some v \<Rightarrow> v \<notin> set [''0'', ''f'', ''F'', ''FALSE'', ''false'', ''False'']) \<or>
              (case ing_Annotations ing ''ingress.kubernetes.io/allow-http'' of
                 None \<Rightarrow> False
               | Some v \<Rightarrow> v \<in> set [''1'', ''t'', ''T'', ''TRUE'', ''true'', ''True''])
      then [\<lparr>protocol = ''http'',
              port = (case ing_Annotations ing ''virtual-server.f5.com/http-port'' of
                        None \<Rightarrow> 80 | Some p \<Rightarrow> fst (ParseInt p 32))\<rparr>,
            \<lparr>protocol = ''https'',
              port = (case ing_Annotations ing ''virtual-server.f5.com/https-port'' of
                        None \<Rightarrow> 443 | Some p \<Rightarrow> fst (ParseInt p 32))\<rparr>]
      else [\<lparr>protocol = ''https'',
              port = (case ing_Annotations ing ''virtual-server.f5.com/https-port'' of
                        None \<Rightarrow> 443 | Some p \<Rightarrow> fst (ParseInt p 32))\<rparr>]) \<and>
   (p \<noteq> [] \<and> set p \<subseteq> set ''0123456789'' \<and> decimalValue p < 2147483648 \<longrightarrow>
      ParseInt p 32 = (int (decimalValue p), None)) \<and>
   getBooleanAnnotation annotations key defaultValue =
     (case annotations key of
        None \<Rightarrow> defaultValue
      | Some v \<Rightarrow>
          if v \<in> set [''1'', ''t'', ''T'', ''TRUE'', ''true'', ''True''] then True
          else if v \<in> set [''0'', ''f'', ''F'', ''FALSE'', ''false'', ''False''] then False
          else defaultValue)"
proof (intro conjI impI)
  show "getBooleanAnnotation annotations key defaultValue =
     (case annotations key of
        None \<Rightarrow> defaultValue
      | Some v \<Rightarrow>
          if v \<in> set [''1'', ''t'', ''T'', ''TRUE'', ''true'', ''True''] then True
          else if v \<in> set [''0'', ''f'', ''F'', ''FALSE'', ''false'', ''False''] then False
          else defaultValue)"
    by (simp add: getBooleanAnnotation_def ParseBool_def split: option.splits)
next
  assume "p \<noteq> [] \<and> set p \<subseteq> set ''0123456789'' \<and> decimalValue p < 2147483648"
  then show "ParseInt p 32 = (int (decimalValue p), None)"
    by (simp add: ParseInt_decimal)
next
  have r: "getBooleanAnnotation (ing_Annotations ing) ingressSslRedirect True =
      (case ing_Annotations ing ''ingress.kubernetes.io/ssl-redirect'' of
                 None \<Rightarrow> True
               | Some v \<Rightarrow> v \<notin> set [''0'', ''f'', ''F'', ''FALSE'', ''false'', ''False''])"
    by (simp add: getBooleanAnnotation_def ParseBool_def ingressSslRedirect_def
        split: option.splits)
  have a: "getBooleanAnnotation (ing_Annotations ing) ingressAllowHttp False =
      (case ing_Annotations ing ''ingress.kubernetes.io/allow-http'' of
                 None \<Rightarrow> False
               | Some v \<Rightarrow> v \<in> set [''1'', ''t'', ''T'', ''TRUE'', ''true'', ''True''])"
    by (simp add: getBooleanAnnotation_def ParseBool_def ingressAllowHttp_def
        split: option.splits)
  show "virtualPorts ing =
     (if ing_TLS ing = []
      then [\<lparr>protocol = ''http'',
             port = (case ing_Annotations ing ''virtual-server.f5.com/http-port'' of
                       None \<Rightarrow> 80 | Some p \<Rightarrow> fst (ParseInt p 32))\<rparr>]
      else if (case ing_Annotations ing ''ingress.kubernetes.io/ssl-redirect'' of
                 None \<Rightarrow> True
               | Some v \<Rightarrow> v \<notin> set [''0'', ''f'', ''F'', ''FALSE'', ''false'', ''False'']) \<or>
              (case ing_Annotations ing ''ingress.kubernetes.io/allow-http'' of
                 None \<Rightarrow> False
               | Some v \<Rightarrow> v \<in> set [''1'', ''t'', ''T'', ''TRUE'', ''true'', ''True''])
      then [\<lparr>protocol = ''http'',
              port = (case ing_Annotations ing ''virtual-server.f5.com/http-port'' of
                        None \<Rightarrow> 80 | Some p \<Rightarrow> fst (ParseInt p 32))\<rparr>,
            \<lparr>protocol = ''https'',
              port = (case ing_Annotations ing ''virtual-server.f5.com/https-port'' of
                        None \<Rightarrow> 443 | Some p \<Rightarrow> fst (ParseInt p 32))\<rparr>]
      else [\<lparr>protocol = ''https'',
              port = (case ing_Annotations ing ''virtual-server.f5.com/https-port'' of
                        None \<Rightarrow> 443 | Some p \<Rightarrow> fst (ParseInt p 32))\<rparr>])"
    unfolding virtualPorts_def r a
    by (simp add: Let_def DEFAULT_HTTP_PORT_def DEFAULT_HTTPS_PORT_def split: option.splits)
qed

theorem virtualPorts_cases_witness:
  "''8443'' \<noteq> [] \<and> set ''8443'' \<subseteq> set ''0123456789'' \<and> decimalValue ''8443'' < 2147483648 \<and>
   ParseInt ''8443'' 32 = (8443, None) \<and>
   virtualPorts annotatedIngress = [\<lparr>protocol = ''https'', port = 8443\<rparr>] \<and>
   virtualPorts (exampleIngress Map.empty [\<lparr>SecretName = ''web-tls''\<rparr>]) =
     [\<lparr>protocol = ''http'', port = 80\<rparr>, \<lparr>protocol = ''https'', port = 443\<rparr>] \<and>
   virtualPorts (exampleIngress [''virtual-server.f5.com/http-port'' \<mapsto> ''8080''] []) =
     [\<lparr>protocol = ''http'', port = 8080\<rparr>]"
proof -
  have v: "decimalValue ''8443'' = 8443" "decimalValue ''8080'' = 8080"
    by (simp_all add: decimalValue_def)
  have pre: "''8443'' \<noteq> [] \<and> set ''8443'' \<subseteq> set ''0123456789'' \<and>
      decimalValue ''8443'' < 2147483648"
    unfolding v by simp
  have pre2: "''8080'' \<noteq> [] \<and> set ''8080'' \<subseteq> set ''0123456789'' \<and>
      decimalValue ''8080'' < 2147483648"
    unfolding v by simp
  from virtualPorts_cases [of annotatedIngress "''8443''"] pre
  have p1: "ParseInt ''8443'' 32 = (8443, None)" unfolding v by simp
  from virtualPorts_cases [of annotatedIngress "''8080''"] pre2
  have p2: "ParseInt ''8080'' 32 = (8080, None)" unfolding v by simp
  from virtualPorts_cases [of annotatedIngress "''8443''"]
  have a: "virtualPorts annotatedIngress = [\<lparr>protocol = ''https'', port = 8443\<rparr>]"
    by (simp add: annotatedIngress_def exampleIngress_def p1)
  from virtualPorts_cases [of "exampleIngress Map.empty [\<lparr>SecretName = ''web-tls''\<rparr>]" "''8443''"]
  have b: "virtualPorts (exampleIngress Map.empty [\<lparr>SecretName = ''web-tls''\<rparr>]) =
     [\<lparr>protocol = ''http'', port = 80\<rparr>, \<lparr>protocol = ''https'', port = 443\<rparr>]"
    by (simp add: exampleIngress_def)
  from virtualPorts_cases
         [of "exampleIngress [''virtual-server.f5.com/http-port'' \<mapsto> ''8080''] []" "''8080''"]
  have c: "virtualPorts (exampleIngress [''virtual-server.f5.com/http-port'' \<mapsto> ''8080''] []) =
     [\<lparr>protocol = ''http'', port = 8080\<rparr>]"
    by (simp add: exampleIngress_def p2)
  from pre p1 a b c show ?thesis by blast
qed

subsection \<open>Conflicting informers\<close>

lemma map_of_member: "k \<in> fst ` set xs \<Longrightarrow> map_of xs k \<noteq> None"
  by (simp add: map_of_eq_None_iff)

text \<open>
  Claim C9: \<^verbatim>\<open>AddNamespace\<close> returns an error for the name of all
  namespaces while a specific namespace has an informer, and for a specific
  namespace while all namespaces are watched;
  \<^verbatim>\<open>AddNamespaceLabelInformer\<close> returns an error while any namespace has
  an informer or a label informer is installed. In each of these cases the
  manager, and so its set of informers, is unchanged.
\<close>

theorem informer_conflicts_rejected:
  "(ns = '''' \<and> (\<exists>k. k \<noteq> '''' \<and> k \<in> fst ` set (appInformers m)) \<longrightarrow>
      (\<exists>e. AddNamespace ns sel r m = (Some e, m))) \<and>
   (ns \<noteq> '''' \<and> '''' \<in> fst ` set (appInformers m) \<longrightarrow>
      (\<exists>e. AddNamespace ns sel r m = (Some e, m))) \<and>
   (appInformers m \<noteq> [] \<or> nsInformer m \<noteq> None \<longrightarrow>
      (\<exists>e. AddNamespaceLabelInformer lsel r m = (Some e, m)))"
proof (intro conjI impI)
  assume a: "ns = '''' \<and> (\<exists>k. k \<noteq> '''' \<and> k \<in> fst ` set (appInformers m))"
  then have "appInformers m \<noteq> []" by auto
  with a show "\<exists>e. AddNamespace ns sel r m = (Some e, m)"
    by (simp add: AddNamespace_def addNamespaceLocked_def)
next
  assume a: "ns \<noteq> '''' \<and> '''' \<in> fst ` set (appInformers m)"
  then have "appInformers m \<noteq> []" by auto
  moreover from a have "map_of (appInformers m) '''' \<noteq> None"
    by (simp add: map_of_member)
  ultimately have "watchingAllNamespacesLocked m"
    by (simp add: watchingAllNamespacesLocked_def)
  then show "\<exists>e. AddNamespace ns sel r m = (Some e, m)"
    by (simp add: AddNamespace_def addNamespaceLocked_def)
next
  assume "appInformers m \<noteq> [] \<or> nsInformer m \<noteq> None"
  then show "\<exists>e. AddNamespaceLabelInformer lsel r m = (Some e, m)"
    by (auto simp: AddNamespaceLabelInformer_def)
qed

theorem informer_conflicts_rejected_witness:
  "''ns1'' \<noteq> '''' \<and>
   ''ns1'' \<in> fst ` set (appInformers
      ((NewManager defaultParams)\<lparr>appInformers := [(''ns1'', exampleInformer ''ns1'')]\<rparr>)) \<and>
   (\<exists>e. AddNamespace '''' ''f5type in (virtual-server)'' 0
      ((NewManager defaultParams)\<lparr>appInformers := [(''ns1'', exampleInformer ''ns1'')]\<rparr>) =
      (Some e, (NewManager defaultParams)\<lparr>appInformers := [(''ns1'', exampleInformer ''ns1'')]\<rparr>)) \<and>
   '''' \<in> fst ` set (appInformers
      ((NewManager defaultParams)\<lparr>appInformers := [('''', exampleInformer '''')]\<rparr>)) \<and>
   (\<exists>e. AddNamespace ''ns1'' ''f5type in (virtual-server)'' 0
      ((NewManager defaultParams)\<lparr>appInformers := [('''', exampleInformer '''')]\<rparr>) =
      (Some e, (NewManager defaultParams)\<lparr>appInformers := [('''', exampleInformer '''')]\<rparr>)) \<and>
   (\<exists>e. AddNamespaceLabelInformer ''watch=yes'' 0
      ((NewManager defaultParams)\<lparr>appInformers := [(''ns1'', exampleInformer ''ns1'')]\<rparr>) =
      (Some e, (NewManager defaultParams)\<lparr>appInformers := [(''ns1'', exampleInformer ''ns1'')]\<rparr>))"
  using informer_conflicts_rejected
          [of "''''" "(NewManager defaultParams)\<lparr>appInformers := [(''ns1'', exampleInformer ''ns1'')]\<rparr>"
              "''f5type in (virtual-server)''" 0 "''watch=yes''"]
        informer_conflicts_rejected
          [of "''ns1''" "(NewManager defaultParams)\<lparr>appInformers := [('''', exampleInformer '''')]\<rparr>"
              "''f5type in (virtual-server)''" 0 "''watch=yes''"]
  by simp

subsection \<open>Node updates\<close>

lemma nodeMembers_fold:
  "foldl (\<lambda>members node. append_slice members (newMember node p)) acc xs =
     (if xs = [] then acc else Some (elems acc @ map (\<lambda>a. newMember a p) xs))"
  by (induction xs arbitrary: acc) (auto simp: append_slice_def elems_def)

lemma nodeMembers_eq:
  "nodeMembers xs p = (if xs = [] then None else Some (map (\<lambda>a. newMember a p) xs))"
  by (simp add: nodeMembers_def nodeMembers_fold elems_def)

lemma node_addrs_inner:
  "foldl (\<lambda>addrs addr. if na_Type addr = t then addrs @ [na_Address addr] else addrs) acc as =
     acc @ map na_Address (filter (\<lambda>a. na_Type a = t) as)"
  by (induction as arbitrary: acc) auto

lemma node_addrs_outer:
  "foldl (\<lambda>addrs node.
            if Unschedulable node then addrs
            else foldl (\<lambda>addrs addr. if na_Type addr = t then addrs @ [na_Address addr] else addrs)
                   addrs (node_Addresses node)) acc nodes =
     acc @ concat (map (\<lambda>n. map na_Address (filter (\<lambda>a. na_Type a = t) (node_Addresses n)))
                     (filter (\<lambda>n. \<not> Unschedulable n) nodes))"
  by (induction nodes arbitrary: acc) (auto simp: node_addrs_inner)

lemma getNodeAddresses_eq:
  "getNodeAddresses (NodeList nodes) m = Inr (schedulableAddresses (useNodeInternal m) nodes)"
  by (simp add: getNodeAddresses_def node_addrs_outer schedulableAddresses_def
      NodeInternalIP_def NodeExternalIP_def Let_def)

lemma setNodeMembers_idem: "setNodeMembers ns (setNodeMembers ns c) = setNodeMembers ns c"
  by (cases "Pools c") (simp_all add: setNodeMembers_def)

lemma setNodeMembers_pools: "Pools c \<noteq> [] \<Longrightarrow> Pools (setNodeMembers ns c) \<noteq> []"
  by (simp add: setNodeMembers_def)

lemma ForEach_nodes:
  "\<forall>e \<in> set es. \<exists>c. heap m (snd e) = Some c \<and> Pools c \<noteq> [] \<Longrightarrow>
   ForEach (\<lambda>key cfg. updateCfg cfg
              (\<lambda>c. setPoolMembers 0 (nodeMembers ns (NodePort (MetaData c))) c)) es m =
     Inr (m\<lparr>heap := (\<lambda>a. if a \<in> snd ` set es then map_option (setNodeMembers ns) (heap m a)
                            else heap m a)\<rparr>)"
proof (induction es arbitrary: m)
  case Nil
  then show ?case by simp
next
  case (Cons e es)
  from Cons.prems obtain c where c: "heap m (snd e) = Some c" "Pools c \<noteq> []" by auto
  let ?m1 = "m\<lparr>heap := (heap m)(snd e \<mapsto> setNodeMembers ns c)\<rparr>"
  have step: "updateCfg (snd e) (\<lambda>c. setPoolMembers 0 (nodeMembers ns (NodePort (MetaData c))) c) m
                = Inr ?m1"
    using c by (simp add: updateCfg_def setPoolMembers_def bindP_def setNodeMembers_def)
  have pre: "\<forall>e' \<in> set es. \<exists>c'. heap ?m1 (snd e') = Some c' \<and> Pools c' \<noteq> []"
    using Cons.prems c by (auto simp: setNodeMembers_pools)
  have "ForEach (\<lambda>key cfg. updateCfg cfg
              (\<lambda>c. setPoolMembers 0 (nodeMembers ns (NodePort (MetaData c))) c)) (e # es) m
        = ForEach (\<lambda>key cfg. updateCfg cfg
              (\<lambda>c. setPoolMembers 0 (nodeMembers ns (NodePort (MetaData c))) c)) es ?m1"
    by (simp add: step bindP_def)
  also have "\<dots> = Inr (?m1\<lparr>heap := (\<lambda>a. if a \<in> snd ` set es
                         then map_option (setNodeMembers ns) (heap ?m1 a) else heap ?m1 a)\<rparr>)"
    by (rule Cons.IH [OF pre])
  also have "(\<lambda>a. if a \<in> snd ` set es
                         then map_option (setNodeMembers ns) (heap ?m1 a) else heap ?m1 a)
           = (\<lambda>a. if a \<in> snd ` set (e # es) then map_option (setNodeMembers ns) (heap m a)
                            else heap m a)"
    using c by (auto simp: fun_eq_iff setNodeMembers_idem)
  finally show ?case by simp
qed

text \<open>
  Claim C6, as the code has it. What \<^verbatim>\<open>ProcessNodeUpdate\<close> does with the
  sorted list of the addresses (of the configured type) of the schedulable
  nodes depends on the initial-state flag, not on whether the call is the
  first. While the flag is false the list is recorded as the baseline and
  nothing else changes: nothing is emitted. When the flag is true and the
  list differs from the baseline (the nil baseline of a manager that has
  recorded none differs from every list), then, provided every stored
  configuration has a pool, the members of pool 0 of every stored
  configuration become the new addresses paired with the node port of that
  configuration, one document is emitted and the list becomes the baseline.
  When the flag is true and the list equals the baseline nothing changes.
\<close>

theorem ProcessNodeUpdate_by_flag:
  "(\<not> initialState m \<longrightarrow>
      ProcessNodeUpdate (NodeList nodes) None m =
        Inr (m\<lparr>oldNodes := Some (sort (schedulableAddresses (useNodeInternal m) nodes))\<rparr>)) \<and>
   (initialState m \<and>
    oldNodes m \<noteq> Some (sort (schedulableAddresses (useNodeInternal m) nodes)) \<and>
    (\<forall>e \<in> set (resources m). \<exists>c. heap m (snd e) = Some c \<and> Pools c \<noteq> []) \<longrightarrow>
      (\<exists>m1. ProcessNodeUpdate (NodeList nodes) None m = Inr m1 \<and>
            written m1 = written m + 1 \<and>
            oldNodes m1 = Some (sort (schedulableAddresses (useNodeInternal m) nodes)) \<and>
            resources m1 = resources m \<and>
            (\<forall>e \<in> set (resources m). \<exists>c c1.
                heap m (snd e) = Some c \<and> heap m1 (snd e) = Some c1 \<and>
                MetaData c1 = MetaData c \<and>
                elems (Members (Pools c1 ! 0)) =
                  map (\<lambda>a. \<lparr>Address = a, Port = NodePort (MetaData c), Session = ''user-enabled''\<rparr>)
                    (sort (schedulableAddresses (useNodeInternal m) nodes))))) \<and>
   (initialState m \<and>
    oldNodes m = Some (sort (schedulableAddresses (useNodeInternal m) nodes)) \<longrightarrow>
      ProcessNodeUpdate (NodeList nodes) None m = Inr m)"
proof (intro conjI impI)
  assume "\<not> initialState m"
  then show "ProcessNodeUpdate (NodeList nodes) None m =
        Inr (m\<lparr>oldNodes := Some (sort (schedulableAddresses (useNodeInternal m) nodes))\<rparr>)"
    by (simp add: ProcessNodeUpdate_def getNodeAddresses_eq Let_def)
next
  assume "initialState m \<and>
    oldNodes m = Some (sort (schedulableAddresses (useNodeInternal m) nodes))"
  then show "ProcessNodeUpdate (NodeList nodes) None m = Inr m"
    by (simp add: ProcessNodeUpdate_def getNodeAddresses_eq Let_def)
next
  let ?new = "sort (schedulableAddresses (useNodeInternal m) nodes)"
  assume a: "initialState m \<and> oldNodes m \<noteq> Some ?new \<and>
    (\<forall>e \<in> set (resources m). \<exists>c. heap m (snd e) = Some c \<and> Pools c \<noteq> [])"
  let ?h = "\<lambda>a. if a \<in> snd ` set (resources m)
                 then map_option (setNodeMembers ?new) (heap m a) else heap m a"
  let ?m1 = "(outputConfigLocked (m\<lparr>heap := ?h\<rparr>))\<lparr>oldNodes := Some ?new\<rparr>"
  have run: "ProcessNodeUpdate (NodeList nodes) None m = Inr ?m1"
    using a by (simp add: ProcessNodeUpdate_def getNodeAddresses_eq Let_def ForEach_nodes bindP_def)
  have each: "\<forall>e \<in> set (resources m). \<exists>c c1.
                heap m (snd e) = Some c \<and> heap ?m1 (snd e) = Some c1 \<and>
                MetaData c1 = MetaData c \<and>
                elems (Members (Pools c1 ! 0)) =
                  map (\<lambda>a. \<lparr>Address = a, Port = NodePort (MetaData c), Session = ''user-enabled''\<rparr>) ?new"
  proof
    fix e assume e: "e \<in> set (resources m)"
    with a obtain c where c: "heap m (snd e) = Some c" "Pools c \<noteq> []" by auto
    have "heap ?m1 (snd e) = Some (setNodeMembers ?new c)"
      using e c by (simp add: outputConfigLocked_def)
    moreover have "MetaData (setNodeMembers ?new c) = MetaData c"
      by (simp add: setNodeMembers_def)
    moreover have "elems (Members (Pools (setNodeMembers ?new c) ! 0)) =
        map (\<lambda>a. \<lparr>Address = a, Port = NodePort (MetaData c), Session = ''user-enabled''\<rparr>) ?new"
      using c(2) by (simp add: setNodeMembers_def nodeMembers_eq elems_def newMember_def)
    ultimately show "\<exists>c c1.
                heap m (snd e) = Some c \<and> heap ?m1 (snd e) = Some c1 \<and>
                MetaData c1 = MetaData c \<and>
                elems (Members (Pools c1 ! 0)) =
                  map (\<lambda>a. \<lparr>Address = a, Port = NodePort (MetaData c), Session = ''user-enabled''\<rparr>) ?new"
      using c(1) by blast
  qed
  show "\<exists>m1. ProcessNodeUpdate (NodeList nodes) None m = Inr m1 \<and>
            written m1 = written m + 1 \<and>
            oldNodes m1 = Some ?new \<and>
            resources m1 = resources m \<and>
            (\<forall>e \<in> set (resources m). \<exists>c c1.
                heap m (snd e) = Some c \<and> heap m1 (snd e) = Some c1 \<and>
                MetaData c1 = MetaData c \<and>
                elems (Members (Pools c1 ! 0)) =
                  map (\<lambda>a. \<lparr>Address = a, Port = NodePort (MetaData c), Session = ''user-enabled''\<rparr>) ?new)"
    using run each by (intro exI [of _ ?m1]) (simp add: outputConfigLocked_def)
qed

text \<open>
  Claim C6 as stated fails on a second call made while the initial-state
  flag is still false: the list differs from the baseline recorded by the
  first call, yet nothing is emitted and the members of the stored
  configuration stay as they were; only the baseline is replaced.
\<close>

theorem ProcessNodeUpdate_later_call_no_emission:
  "\<not> initialState exampleStore \<and> written exampleStore = 0 \<and>
   ProcessNodeUpdate (NodeList [exampleNode ''10.0.0.1'' False]) None exampleStore =
     Inr (exampleStore\<lparr>oldNodes := Some [''10.0.0.1'']\<rparr>) \<and>
   ProcessNodeUpdate
       (NodeList [exampleNode ''10.0.0.2'' False, exampleNode ''10.0.0.1'' False]) None
       (exampleStore\<lparr>oldNodes := Some [''10.0.0.1'']\<rparr>) =
     Inr (exampleStore\<lparr>oldNodes := Some [''10.0.0.1'', ''10.0.0.2'']\<rparr>) \<and>
   written (exampleStore\<lparr>oldNodes := Some [''10.0.0.1'', ''10.0.0.2'']\<rparr>) = 0 \<and>
   heap (exampleStore\<lparr>oldNodes := Some [''10.0.0.1'', ''10.0.0.2'']\<rparr>) 0 =
     Some (exampleConfig True [examplePool ''foo'' 80 (Some [newMember ''10.0.0.1'' 30080])])"
  by (simp add: ProcessNodeUpdate_def getNodeAddresses_def exampleStore_def NewManager_def
      defaultParams_def exampleNode_def NodeInternalIP_def NodeExternalIP_def Let_def)

theorem ProcessNodeUpdate_by_flag_witness:
  "initialState (exampleStore\<lparr>initialState := True, oldNodes := Some [''10.0.0.1'']\<rparr>) \<and>
   (\<exists>m1. ProcessNodeUpdate
            (NodeList [exampleNode ''10.0.0.2'' False, exampleNode ''10.0.0.1'' False,
                       exampleNode ''10.0.0.3'' True]) None
            (exampleStore\<lparr>initialState := True, oldNodes := Some [''10.0.0.1'']\<rparr>) = Inr m1 \<and>
          written m1 = 1 \<and> oldNodes m1 = Some [''10.0.0.1'', ''10.0.0.2''] \<and>
          (\<exists>c1. heap m1 0 = Some c1 \<and>
                 elems (Members (Pools c1 ! 0)) =
                   [\<lparr>Address = ''10.0.0.1'', Port = 30080, Session = ''user-enabled''\<rparr>,
                    \<lparr>Address = ''10.0.0.2'', Port = 30080, Session = ''user-enabled''\<rparr>])) \<and>
   ProcessNodeUpdate (NodeList [exampleNode ''10.0.0.1'' False]) None (NewManager defaultParams) =
     Inr ((NewManager defaultParams)\<lparr>oldNodes := Some [''10.0.0.1'']\<rparr>)"
proof -
  let ?M = "exampleStore\<lparr>initialState := True, oldNodes := Some [''10.0.0.1'']\<rparr>"
  let ?nodes = "[exampleNode ''10.0.0.2'' False, exampleNode ''10.0.0.1'' False,
                 exampleNode ''10.0.0.3'' True]"
  have new: "sort (schedulableAddresses (useNodeInternal ?M) ?nodes) = [''10.0.0.1'', ''10.0.0.2'']"
    by (simp add: exampleStore_def NewManager_def defaultParams_def exampleNode_def
        schedulableAddresses_def)
  have pre: "initialState ?M \<and>
    oldNodes ?M \<noteq> Some (sort (schedulableAddresses (useNodeInternal ?M) ?nodes)) \<and>
    (\<forall>e \<in> set (resources ?M). \<exists>c. heap ?M (snd e) = Some c \<and> Pools c \<noteq> [])"
    unfolding new by (simp add: exampleStore_def exampleConfig_def)
  from ProcessNodeUpdate_by_flag [of ?M ?nodes] pre
  obtain m1 where m1: "ProcessNodeUpdate (NodeList ?nodes) None ?M = Inr m1"
      "written m1 = written ?M + 1"
      "oldNodes m1 = Some (sort (schedulableAddresses (useNodeInternal ?M) ?nodes))"
      "\<forall>e \<in> set (resources ?M). \<exists>c c1.
          heap ?M (snd e) = Some c \<and> heap m1 (snd e) = Some c1 \<and>
          MetaData c1 = MetaData c \<and>
          elems (Members (Pools c1 ! 0)) =
            map (\<lambda>a. \<lparr>Address = a, Port = NodePort (MetaData c), Session = ''user-enabled''\<rparr>)
              (sort (schedulableAddresses (useNodeInternal ?M) ?nodes))"
    by blast
  from m1(4) have "\<exists>c1. heap m1 0 = Some c1 \<and>
                 elems (Members (Pools c1 ! 0)) =
                   [\<lparr>Address = ''10.0.0.1'', Port = 30080, Session = ''user-enabled''\<rparr>,
                    \<lparr>Address = ''10.0.0.2'', Port = 30080, Session = ''user-enabled''\<rparr>]"
    unfolding new by (auto simp: exampleStore_def exampleConfig_def)
  moreover have "written m1 = 1"
    using m1(2) by (simp add: exampleStore_def NewManager_def)
  moreover have "oldNodes m1 = Some [''10.0.0.1'', ''10.0.0.2'']"
    using m1(3) unfolding new .
  moreover have "initialState ?M" by simp
  moreover have "ProcessNodeUpdate (NodeList [exampleNode ''10.0.0.1'' False]) None
       (NewManager defaultParams) =
     Inr ((NewManager defaultParams)\<lparr>oldNodes := Some [''10.0.0.1'']\<rparr>)"
    using ProcessNodeUpdate_by_flag
          [of "NewManager defaultParams" "[exampleNode ''10.0.0.1'' False]"]
    by (simp add: NewManager_def defaultParams_def exampleNode_def schedulableAddresses_def)
  ultimately show ?thesis using m1(1) by blast
qed

subsection \<open>Deactivating a virtual server\<close>

lemma Get_Assign: "Get k n (Assign k n a m) = Some a"
  by (simp add: Get_def Assign_def update_conv')

lemma heap_Assign: "heap (Assign k n a m) = heap m"
  by (simp add: Assign_def)

text \<open>
  Claim C3, as the code has it. When an entry is stored under the key and
  the name, \<^verbatim>\<open>deactivateVirtualServer\<close> sets \<open>Active\<close> to false and
  empties the members of the pool at the given index, and of no other pool:
  the configuration stored afterwards is the candidate with exactly these
  two changes, so every other pool has the members it had. When no entry is
  stored, the candidate is stored as it is.
\<close>

theorem deactivateVirtualServer_clears_indexed_pool:
  "(Get sKey rsName m = Some rs \<and> heap m rsCfg = Some cfg \<and> index < length (Pools cfg) \<longrightarrow>
      (\<exists>u m1 a.
          deactivateVirtualServer sKey rsName rsCfg index m = Inr (u, m1) \<and>
          Get sKey rsName m1 = Some a \<and>
          heap m1 a =
            Some (cfg\<lparr>MetaData := (MetaData cfg)\<lparr>Active := False\<rparr>,
                       Pools := (Pools cfg)[index := (Pools cfg ! index)\<lparr>Members := None\<rparr>]\<rparr>))) \<and>
   (Get sKey rsName m = None \<longrightarrow>
      deactivateVirtualServer sKey rsName rsCfg index m =
        Inr (True, Assign sKey rsName rsCfg m) \<and>
      Get sKey rsName (Assign sKey rsName rsCfg m) = Some rsCfg \<and>
      heap (Assign sKey rsName rsCfg m) rsCfg = heap m rsCfg)"
proof (intro conjI impI)
  assume a: "Get sKey rsName m = Some rs \<and> heap m rsCfg = Some cfg \<and> index < length (Pools cfg)"
  define c1 where
    "c1 = cfg\<lparr>MetaData := (MetaData cfg)\<lparr>Active := False\<rparr>,
              Pools := (Pools cfg)[index := (Pools cfg ! index)\<lparr>Members := None\<rparr>]\<rparr>"
  define m1 where "m1 = m\<lparr>heap := (heap m)(rsCfg \<mapsto> c1)\<rparr>"
  have upd: "updateCfg rsCfg
               (\<lambda>cfg. setPoolMembers index None
                        (cfg\<lparr>MetaData := (MetaData cfg)\<lparr>Active := False\<rparr>\<rparr>)) m = Inr m1"
    using a by (simp add: updateCfg_def setPoolMembers_def bindP_def m1_def c1_def)
  have h1: "heap m1 rsCfg = Some c1" by (simp add: m1_def)
  have g1: "Get sKey rsName m1 = Some rs" using a by (simp add: m1_def Get_def)
  have "\<exists>u m1 a.
          deactivateVirtualServer sKey rsName rsCfg index m = Inr (u, m1) \<and>
          Get sKey rsName m1 = Some a \<and> heap m1 a = Some c1"
  proof (cases "DeepEqual m1 rs rsCfg")
    case True
    then have "heap m1 rs = Some c1" using h1 by (auto simp: DeepEqual_def)
    moreover have "deactivateVirtualServer sKey rsName rsCfg index m = Inr (False, m1)"
      using a True by (simp add: deactivateVirtualServer_def upd bindP_def)
    ultimately show ?thesis using g1 by blast
  next
    case False
    have "deactivateVirtualServer sKey rsName rsCfg index m =
            Inr (True, Assign sKey rsName rsCfg m1)"
      using a False by (simp add: deactivateVirtualServer_def upd bindP_def)
    moreover have "Get sKey rsName (Assign sKey rsName rsCfg m1) = Some rsCfg"
      by (rule Get_Assign)
    moreover have "heap (Assign sKey rsName rsCfg m1) rsCfg = Some c1"
      using h1 by (simp add: heap_Assign)
    ultimately show ?thesis by blast
  qed
  then show "\<exists>u m1 a.
          deactivateVirtualServer sKey rsName rsCfg index m = Inr (u, m1) \<and>
          Get sKey rsName m1 = Some a \<and>
          heap m1 a =
            Some (cfg\<lparr>MetaData := (MetaData cfg)\<lparr>Active := False\<rparr>,
                       Pools := (Pools cfg)[index := (Pools cfg ! index)\<lparr>Members := None\<rparr>]\<rparr>)"
    unfolding c1_def .
next
  assume "Get sKey rsName m = None"
  then show "deactivateVirtualServer sKey rsName rsCfg index m =
        Inr (True, Assign sKey rsName rsCfg m)"
    by (simp add: deactivateVirtualServer_def)
next
  show "Get sKey rsName (Assign sKey rsName rsCfg m) = Some rsCfg" by (rule Get_Assign)
next
  show "heap (Assign sKey rsName rsCfg m) rsCfg = heap m rsCfg" by (simp add: heap_Assign)
qed

theorem deactivateVirtualServer_clears_indexed_pool_witness:
  "Get (exampleKey ''foo'' 80) ''default_web'' twoPoolStore = Some 0 \<and>
   heap twoPoolStore 1 = Some twoPoolConfig \<and>
   (0::nat) < length (Pools twoPoolConfig) \<and>
   (\<exists>u m1 a.
       deactivateVirtualServer (exampleKey ''foo'' 80) ''default_web'' 1 0 twoPoolStore =
         Inr (u, m1) \<and>
       Get (exampleKey ''foo'' 80) ''default_web'' m1 = Some a \<and>
       heap m1 a =
         Some (exampleConfig False
                 [examplePool ''foo'' 80 None,
                  examplePool ''bar'' 80 (Some [newMember ''10.0.0.1'' 30090])])) \<and>
   Get (exampleKey ''foo'' 80) ''default_web'' (NewManager defaultParams) = None \<and>
   deactivateVirtualServer (exampleKey ''foo'' 80) ''default_web'' 1 0 (NewManager defaultParams) =
     Inr (True, Assign (exampleKey ''foo'' 80) ''default_web'' 1 (NewManager defaultParams))"
proof -
  have pre: "Get (exampleKey ''foo'' 80) ''default_web'' twoPoolStore = Some 0 \<and>
      heap twoPoolStore 1 = Some twoPoolConfig \<and> (0::nat) < length (Pools twoPoolConfig)"
    by (simp add: Get_def twoPoolStore_def twoPoolConfig_def exampleConfig_def)
  have pre2: "Get (exampleKey ''foo'' 80) ''default_web'' (NewManager defaultParams) = None"
    by (simp add: Get_def NewManager_def)
  have c: "twoPoolConfig\<lparr>MetaData := (MetaData twoPoolConfig)\<lparr>Active := False\<rparr>,
              Pools := (Pools twoPoolConfig)[0 := (Pools twoPoolConfig ! 0)\<lparr>Members := None\<rparr>]\<rparr> =
           exampleConfig False
                 [examplePool ''foo'' 80 None,
                  examplePool ''bar'' 80 (Some [newMember ''10.0.0.1'' 30090])]"
    by (simp add: twoPoolConfig_def exampleConfig_def examplePool_def)
  from deactivateVirtualServer_clears_indexed_pool
         [of "exampleKey ''foo'' 80" "''default_web''" twoPoolStore 0 1 twoPoolConfig 0] pre
  have "\<exists>u m1 a.
       deactivateVirtualServer (exampleKey ''foo'' 80) ''default_web'' 1 0 twoPoolStore =
         Inr (u, m1) \<and>
       Get (exampleKey ''foo'' 80) ''default_web'' m1 = Some a \<and>
       heap m1 a =
         Some (exampleConfig False
                 [examplePool ''foo'' 80 None,
                  examplePool ''bar'' 80 (Some [newMember ''10.0.0.1'' 30090])])"
    unfolding c by blast
  moreover from deactivateVirtualServer_clears_indexed_pool
         [of "exampleKey ''foo'' 80" "''default_web''" "NewManager defaultParams" 0 1
             twoPoolConfig 0] pre2
  have "deactivateVirtualServer (exampleKey ''foo'' 80) ''default_web'' 1 0
          (NewManager defaultParams) =
        Inr (True, Assign (exampleKey ''foo'' 80) ''default_web'' 1 (NewManager defaultParams))"
    by blast
  ultimately show ?thesis using pre pre2 by blast
qed

text \<open>
  Claim C3 as stated fails when a configuration with two pools is
  deactivated: the store satisfies the invariant before, and afterwards
  holds an inactive configuration whose second pool still has its member.
\<close>

theorem deactivateVirtualServer_keeps_other_members:
  "storeInvariant twoPoolStore \<and>
   deactivateVirtualServer (exampleKey ''foo'' 80) ''default_web'' 1 0 twoPoolStore =
     Inr (True,
          twoPoolStore
            \<lparr>heap := [0 \<mapsto> twoPoolConfig,
                      1 \<mapsto> exampleConfig False
                             [examplePool ''foo'' 80 None,
                              examplePool ''bar'' 80 (Some [newMember ''10.0.0.1'' 30090])]],
             resources := [((exampleKey ''foo'' 80, ''default_web''), 1)]\<rparr>) \<and>
   \<not> storeInvariant
       (twoPoolStore
          \<lparr>heap := [0 \<mapsto> twoPoolConfig,
                    1 \<mapsto> exampleConfig False
                           [examplePool ''foo'' 80 None,
                            examplePool ''bar'' 80 (Some [newMember ''10.0.0.1'' 30090])]],
           resources := [((exampleKey ''foo'' 80, ''default_web''), 1)]\<rparr>)"
proof (intro conjI)
  show "storeInvariant twoPoolStore"
    by (simp add: storeInvariant_def storedConfigs_def twoPoolStore_def twoPoolConfig_def
        inactiveHasNoMembers_def exampleConfig_def)
  show "deactivateVirtualServer (exampleKey ''foo'' 80) ''default_web'' 1 0 twoPoolStore =
     Inr (True,
          twoPoolStore
            \<lparr>heap := [0 \<mapsto> twoPoolConfig,
                      1 \<mapsto> exampleConfig False
                             [examplePool ''foo'' 80 None,
                              examplePool ''bar'' 80 (Some [newMember ''10.0.0.1'' 30090])]],
             resources := [((exampleKey ''foo'' 80, ''default_web''), 1)]\<rparr>)"
    by (simp add: deactivateVirtualServer_def Get_def twoPoolStore_def twoPoolConfig_def
        exampleConfig_def examplePool_def updateCfg_def setPoolMembers_def bindP_def
        DeepEqual_def Assign_def Let_def fun_upd_twist)
  show "\<not> storeInvariant
       (twoPoolStore
          \<lparr>heap := [0 \<mapsto> twoPoolConfig,
                    1 \<mapsto> exampleConfig False
                           [examplePool ''foo'' 80 None,
                            examplePool ''bar'' 80 (Some [newMember ''10.0.0.1'' 30090])]],
           resources := [((exampleKey ''foo'' 80, ''default_web''), 1)]\<rparr>)"
    by (simp add: storeInvariant_def storedConfigs_def inactiveHasNoMembers_def
        exampleConfig_def examplePool_def elems_def)
qed

subsection \<open>A candidate without a pool for the service\<close>

lemma findPool_None: "findPool svc pools i = None \<longleftrightarrow> (\<forall>p \<in> set pools. ServiceName p \<noteq> svc)"
  by (induction pools arbitrary: i) auto

text \<open>
  When no pool of the candidate has the service name of the key and
  \<^verbatim>\<open>handleConfigForType\<close> returns, it returns "not ours" with both
  counts zero and leaves the resource map as it was.
\<close>

lemma handleConfigForType_not_ours:
  assumes "heap m rsCfg = Some cfg"
    and "\<forall>p \<in> set (Pools cfg). ServiceName p \<noteq> q_ServiceName sKey"
    and "handleConfigForType rsCfg sKey rsMap rsName svcPortMap svc endptStore currRouteSvc m =
           Inr (r, rsMap1, m1)"
  shows "r = (False, 0, 0) \<and> rsMap1 = rsMap"
proof -
  from assms(2) have "findPool (q_ServiceName sKey) (Pools cfg) 0 = None"
    by (simp add: findPool_None)
  with assms(1,3) show ?thesis
    by (auto simp: handleConfigForType_def bindP_def split: sum.splits)
qed

text \<open>
  Claim C7 at a concrete input. The stored configuration has the pools
  \<open>foo:80\<close>, \<open>foo:8080\<close> and \<open>bar:80\<close>, the candidate has no pool for
  \<open>foo\<close>. \<^verbatim>\<open>handleConfigForType\<close> returns "not ours" with both counts
  zero, but the loop that removes the pools of \<open>foo\<close> from the stored
  configuration skips the pool that follows a removed one: \<open>foo:8080\<close>
  stays.
\<close>

theorem handleConfigForType_leaves_adjacent_pool:
  "handleConfigForType 1 (exampleQueueKey ''foo'') Map.empty ''default_web'' Map.empty None
      Map.empty '''' adjacentPoolsStore =
     Inr ((False, 0, 0), Map.empty,
          adjacentPoolsStore
            \<lparr>heap := [0 \<mapsto> exampleConfig True
                              [examplePool ''foo'' 8080 None, examplePool ''bar'' 80 None],
                      1 \<mapsto> exampleConfig True [examplePool ''bar'' 80 None]]\<rparr>)"
  by (simp add: handleConfigForType_def adjacentPoolsStore_def NewManager_def
      exampleConfig_def examplePool_def exampleQueueKey_def exampleKey_def
      GetAllWithName_def removeServicePools_def updateCfg_def bindP_def Assign_def
      zeroPool_def Let_def fun_upd_twist)

subsection \<open>Counting found and updated configurations\<close>

text \<open>
  Claim C2, as the code has it. In \<^verbatim>\<open>syncConfigMaps\<close>,
  \<^verbatim>\<open>syncIngresses\<close> and \<^verbatim>\<open>syncRoutes\<close> the count of found
  configurations that \<^verbatim>\<open>handleConfigForType\<close> returns is added to the
  statistics only when its first result is true; the count of updated
  configurations is added whether the first result is true or false. In
  \<^verbatim>\<open>syncIngresses\<close>, when the first result is true, a positive count of
  updates is first reduced by one when \<^verbatim>\<open>processAllMultiSvc\<close> is false,
  that is, when the number of keys stored under the name of the
  configuration differs from the number of its pools.
\<close>

theorem handleConfig_counts_added:
  "(handleConfigForType rsCfg sKey rsMap rsName svcPortMap svc endptStore '''' m =
        Inr ((ok, found, updated), rsMap1, m1) \<longrightarrow>
      syncConfigMaps_handleConfig stats rsCfg sKey rsMap rsName svcPortMap svc endptStore m =
        Inr (ok,
             stats\<lparr>vsFound := vsFound stats + (if ok then found else 0),
                   vsUpdated := vsUpdated stats + updated\<rparr>, rsMap1, m1)) \<and>
   (handleConfigForType rsCfg sKey rsMap rsName svcPortMap svc endptStore routeTo m =
        Inr ((ok, found, updated), rsMap1, m1) \<longrightarrow>
      syncRoutes_handleConfig stats rsCfg sKey rsMap rsName svcPortMap svc endptStore routeTo m =
        Inr (ok,
             stats\<lparr>vsFound := vsFound stats + (if ok then found else 0),
                   vsUpdated := vsUpdated stats + updated\<rparr>, rsMap1, m1)) \<and>
   (handleConfigForType rsCfg sKey rsMap rsName svcPortMap svc endptStore '''' m =
        Inr ((ok, found, updated), rsMap1, m1) \<and> (ok \<longrightarrow> heap m1 rsCfg = Some cfg) \<longrightarrow>
      syncIngresses_handleConfig stats rsCfg sKey rsMap rsName svcPortMap svc endptStore m =
        Inr (ok,
             stats\<lparr>vsFound := vsFound stats + (if ok then found else 0),
                   vsUpdated := vsUpdated stats +
                     (if ok \<and> updated > 0 \<and>
                         \<not> processAllMultiSvc (length (Pools cfg))
                             (VirtualServerName (Virtual cfg)) m1
                      then updated - 1 else updated)\<rparr>, rsMap1, m1))"
  by (auto simp: syncConfigMaps_handleConfig_def syncRoutes_handleConfig_def
      syncIngresses_handleConfig_def bindP_def Let_def)

text \<open>
  Claim C2 as stated fails when the service of the key is gone: the
  candidate for \<open>foo\<close> is new to the store, \<^verbatim>\<open>handleConfigForType\<close> stores
  it deactivated and returns "not ours" with one update, and each of the
  three callers adds that update to \<open>vsUpdated\<close>.
\<close>

theorem handleConfig_not_ours_update_counted:
  "handleConfigForType 1 (exampleQueueKey ''foo'') Map.empty ''default_web'' Map.empty None
      Map.empty '''' candidateOnly =
     Inr ((False, 0, 1), Map.empty,
          candidateOnly
            \<lparr>heap := [1 \<mapsto> exampleConfig False [examplePool ''foo'' 80 None]],
             resources := [((exampleKey ''foo'' 80, ''default_web''), 1)]\<rparr>) \<and>
   syncConfigMaps_handleConfig zeroStats 1 (exampleQueueKey ''foo'') Map.empty ''default_web''
      Map.empty None Map.empty candidateOnly =
     Inr (False, zeroStats\<lparr>vsUpdated := 1\<rparr>, Map.empty,
          candidateOnly
            \<lparr>heap := [1 \<mapsto> exampleConfig False [examplePool ''foo'' 80 None]],
             resources := [((exampleKey ''foo'' 80, ''default_web''), 1)]\<rparr>) \<and>
   syncIngresses_handleConfig zeroStats 1 (exampleQueueKey ''foo'') Map.empty ''default_web''
      Map.empty None Map.empty candidateOnly =
     Inr (False, zeroStats\<lparr>vsUpdated := 1\<rparr>, Map.empty,
          candidateOnly
            \<lparr>heap := [1 \<mapsto> exampleConfig False [examplePool ''foo'' 80 None]],
             resources := [((exampleKey ''foo'' 80, ''default_web''), 1)]\<rparr>) \<and>
   syncRoutes_handleConfig zeroStats 1 (exampleQueueKey ''foo'') Map.empty ''default_web''
      Map.empty None Map.empty ''foo'' candidateOnly =
     Inr (False, zeroStats\<lparr>vsUpdated := 1\<rparr>, Map.empty,
          candidateOnly
            \<lparr>heap := [1 \<mapsto> exampleConfig False [examplePool ''foo'' 80 None]],
             resources := [((exampleKey ''foo'' 80, ''default_web''), 1)]\<rparr>)"
proof -
  have run: "\<And>r. r = '''' \<or> r = ''foo'' \<Longrightarrow>
     handleConfigForType 1 (exampleQueueKey ''foo'') Map.empty ''default_web'' Map.empty None
      Map.empty r candidateOnly =
     Inr ((False, 0, 1), Map.empty,
          candidateOnly
            \<lparr>heap := [1 \<mapsto> exampleConfig False [examplePool ''foo'' 80 None]],
             resources := [((exampleKey ''foo'' 80, ''default_web''), 1)]\<rparr>)"
    by (auto simp: handleConfigForType_def candidateOnly_def NewManager_def
        exampleConfig_def examplePool_def exampleQueueKey_def exampleKey_def
        consumeResourceMap_def deactivateVirtualServer_def Get_def Assign_def
        updateCfg_def setPoolMembers_def DeepEqual_def HasSuffix_def bindP_def Let_def)
  show ?thesis
    using run [of "''''"] run [of "''foo''"]
    by (simp add: syncConfigMaps_handleConfig_def syncIngresses_handleConfig_def
        syncRoutes_handleConfig_def bindP_def zeroStats_def)
qed

lemma handleConfigForType_saved:
  "r = '''' \<or> r = ''foo'' \<Longrightarrow>
   handleConfigForType 1 (exampleQueueKey ''foo'') Map.empty ''default_web'' [80 \<mapsto> False]
      (Some exampleService) Map.empty r candidateWithNode =
     Inr ((True, 1, 1), Map.empty,
          candidateWithNode
            \<lparr>heap := [1 \<mapsto> savedConfig],
             resources := [((exampleKey ''foo'' 80, ''default_web''), 1)]\<rparr>)"
  by (auto simp: handleConfigForType_def candidateWithNode_def candidateOnly_def NewManager_def
      defaultParams_def exampleConfig_def examplePool_def exampleQueueKey_def exampleKey_def
      exampleService_def savedConfig_def ServiceTypeNodePort_def
      consumeResourceMap_def saveVirtualServer_def updatePoolMembersForNodePort_def
      getEndpointsForNodePort_def getNodesFromCache_def elems_def append_slice_def
      Get_def Assign_def updateCfg_def setPoolMembers_def DeepEqual_def HasSuffix_def
      bindP_def Let_def)

theorem handleConfig_counts_added_witness:
  "syncConfigMaps_handleConfig zeroStats 1 (exampleQueueKey ''foo'') Map.empty ''default_web''
      [80 \<mapsto> False] (Some exampleService) Map.empty candidateWithNode =
     Inr (True, zeroStats\<lparr>vsFound := 1, vsUpdated := 1\<rparr>, Map.empty,
          candidateWithNode
            \<lparr>heap := [1 \<mapsto> savedConfig],
             resources := [((exampleKey ''foo'' 80, ''default_web''), 1)]\<rparr>) \<and>
   syncRoutes_handleConfig zeroStats 1 (exampleQueueKey ''foo'') Map.empty ''default_web''
      [80 \<mapsto> False] (Some exampleService) Map.empty ''foo'' candidateWithNode =
     Inr (True, zeroStats\<lparr>vsFound := 1, vsUpdated := 1\<rparr>, Map.empty,
          candidateWithNode
            \<lparr>heap := [1 \<mapsto> savedConfig],
             resources := [((exampleKey ''foo'' 80, ''default_web''), 1)]\<rparr>) \<and>
   syncIngresses_handleConfig zeroStats 1 (exampleQueueKey ''foo'') Map.empty ''default_web''
      [80 \<mapsto> False] (Some exampleService) Map.empty candidateWithNode =
     Inr (True, zeroStats\<lparr>vsFound := 1, vsUpdated := 1\<rparr>, Map.empty,
          candidateWithNode
            \<lparr>heap := [1 \<mapsto> savedConfig],
             resources := [((exampleKey ''foo'' 80, ''default_web''), 1)]\<rparr>)"
proof -
  let ?m1 = "candidateWithNode
            \<lparr>heap := [1 \<mapsto> savedConfig],
             resources := [((exampleKey ''foo'' 80, ''default_web''), 1)]\<rparr>"
  have all: "processAllMultiSvc (length (Pools savedConfig))
               (VirtualServerName (Virtual savedConfig)) ?m1"
    by (simp add: processAllMultiSvc_def GetAllWithName_def savedConfig_def exampleConfig_def
        exampleVirtual_def)
  have h: "heap ?m1 1 = Some savedConfig" by simp
  show ?thesis
    using handleConfig_counts_added
            [of 1 "exampleQueueKey ''foo''" Map.empty "''default_web''" "[80 \<mapsto> False]"
                "Some exampleService" Map.empty candidateWithNode True 1 1 Map.empty ?m1
                zeroStats "''foo''" savedConfig]
          handleConfigForType_saved [of "''''"] handleConfigForType_saved [of "''foo''"] all h
    by (simp add: zeroStats_def)
qed

subsection \<open>The default certificate is loaded at every sync\<close>

text \<open>
  Within a run of calls that follow one another directly, the test of
  \<^verbatim>\<open>loadDefaultCert\<close> works as intended: a call that finds the profile
  of the default certificate stored for the namespace reads no file and
  counts nothing, a call that does not find it reads the file once, stores
  the profile and counts one.
\<close>

lemma setServerSslProfile_stored:
  assumes "route_TLS route = Some tls" "DestinationCACertificate tls = ''''"
    and "customProfiles m (defaultCertKey (q_Namespace sKey)) = Some p"
    and "setServerSslProfile fmt fs stats sKey rsCfg route m = Inr (stats1, m1)"
  shows "stats1 = stats \<and> filesRead m1 = filesRead m \<and> customProfiles m1 = customProfiles m"
  using assms
  by (auto simp: setServerSslProfile_def loadDefaultCert_def defaultCertKey_def
      defaultCertProfileName_def updateCfg_def bindP_def Let_def
      split: option.splits)

lemma setServerSslProfile_new:
  assumes "route_TLS route = Some tls" "DestinationCACertificate tls = ''''"
    and "customProfiles m (defaultCertKey (q_Namespace sKey)) = None"
    and "fs defaultCertPath = Some data"
    and "setServerSslProfile fmt fs stats sKey rsCfg route m = Inr (stats1, m1)"
  shows "stats1 = stats\<lparr>cpUpdated := cpUpdated stats + 1\<rparr> \<and>
         filesRead m1 = filesRead m @ [defaultCertPath] \<and>
         customProfiles m1 =
           (customProfiles m)(defaultCertKey (q_Namespace sKey) \<mapsto>
              \<lparr>cp_Name = ''openshift_route_cluster_default-server-ssl'',
               cp_Partition = DEFAULT_PARTITION m, cp_Context = customProfileServer,
               cp_Cert = data, cp_Key = '''', cp_ServerName = ''''\<rparr>)"
  using assms
  by (auto simp: setServerSslProfile_def loadDefaultCert_def defaultCertKey_def
      defaultCertProfileName_def NewCustomProfile_def updateCfg_def bindP_def Let_def
      split: option.splits)

lemma setServerSslProfile_runs:
  assumes "route_TLS route = Some tls" "DestinationCACertificate tls = ''''"
    and "heap m rsCfg = Some cfg"
  shows "\<exists>r. setServerSslProfile fmt fs stats sKey rsCfg route m = Inr r"
  using assms
  by (auto simp: setServerSslProfile_def loadDefaultCert_def updateCfg_def bindP_def Let_def
      split: option.splits)

lemma setServerSslProfile_each_stored:
  "\<forall>c \<in> set cs. q_Namespace (fst c) = ns \<and>
      (\<exists>tls. route_TLS (snd (snd c)) = Some tls \<and> DestinationCACertificate tls = '''') \<Longrightarrow>
   customProfiles m (defaultCertKey ns) = Some p \<Longrightarrow>
   setServerSslProfile_each fmt fs cs stats m = Inr (stats1, m1) \<Longrightarrow>
   stats1 = stats \<and> filesRead m1 = filesRead m \<and> customProfiles m1 = customProfiles m"
proof (induction cs arbitrary: m)
  case Nil
  then show ?case by simp
next
  case (Cons c cs)
  from Cons.prems(3) obtain s2 m2 where
      one: "setServerSslProfile fmt fs stats (fst c) (fst (snd c)) (snd (snd c)) m = Inr (s2, m2)"
      and rest: "setServerSslProfile_each fmt fs cs s2 m2 = Inr (stats1, m1)"
    by (auto simp: bindP_def split: sum.splits)
  from Cons.prems(1) obtain tls where
      tls: "route_TLS (snd (snd c)) = Some tls" "DestinationCACertificate tls = ''''"
      and ns: "q_Namespace (fst c) = ns"
    by auto
  from setServerSslProfile_stored [OF tls _ one] Cons.prems(2) ns
  have same: "s2 = stats" "filesRead m2 = filesRead m" "customProfiles m2 = customProfiles m"
    by auto
  from Cons.prems(1) have all': "\<forall>c \<in> set cs. q_Namespace (fst c) = ns \<and>
      (\<exists>tls. route_TLS (snd (snd c)) = Some tls \<and> DestinationCACertificate tls = '''')"
    by simp
  from same Cons.prems(2) have st2: "customProfiles m2 (defaultCertKey ns) = Some p"
    by simp
  from Cons.IH [OF all' st2 rest [unfolded same(1)]] same show ?case by simp
qed

lemma setServerSslProfile_each_once:
  "\<forall>c \<in> set cs. q_Namespace (fst c) = ns \<and>
      (\<exists>tls. route_TLS (snd (snd c)) = Some tls \<and> DestinationCACertificate tls = '''') \<Longrightarrow>
   fs defaultCertPath = Some data \<Longrightarrow>
   setServerSslProfile_each fmt fs cs stats m = Inr (stats1, m1) \<Longrightarrow>
   length (filesRead m1) \<le> length (filesRead m) + 1 \<and>
   cpUpdated stats1 \<le> cpUpdated stats + 1"
proof (cases cs)
  case Nil
  assume "setServerSslProfile_each fmt fs cs stats m = Inr (stats1, m1)"
  with Nil show ?thesis by simp
next
  case (Cons c cs')
  assume all: "\<forall>c \<in> set cs. q_Namespace (fst c) = ns \<and>
      (\<exists>tls. route_TLS (snd (snd c)) = Some tls \<and> DestinationCACertificate tls = '''')"
    and readable: "fs defaultCertPath = Some data"
    and run: "setServerSslProfile_each fmt fs cs stats m = Inr (stats1, m1)"
  from run Cons obtain s2 m2 where
      one: "setServerSslProfile fmt fs stats (fst c) (fst (snd c)) (snd (snd c)) m = Inr (s2, m2)"
      and rest: "setServerSslProfile_each fmt fs cs' s2 m2 = Inr (stats1, m1)"
    by (auto simp: bindP_def split: sum.splits)
  from all Cons obtain tls where
      tls: "route_TLS (snd (snd c)) = Some tls" "DestinationCACertificate tls = ''''"
      and ns: "q_Namespace (fst c) = ns"
    by auto
  from all Cons have all': "\<forall>c \<in> set cs'. q_Namespace (fst c) = ns \<and>
      (\<exists>tls. route_TLS (snd (snd c)) = Some tls \<and> DestinationCACertificate tls = '''')"
    by simp
  show ?thesis
  proof (cases "customProfiles m (defaultCertKey ns)")
    case None
    from setServerSslProfile_new [OF tls _ readable one] None ns
    have first: "s2 = stats\<lparr>cpUpdated := cpUpdated stats + 1\<rparr>"
        "filesRead m2 = filesRead m @ [defaultCertPath]"
        "customProfiles m2 (defaultCertKey ns) \<noteq> None"
      by auto
    then obtain p where "customProfiles m2 (defaultCertKey ns) = Some p" by auto
    from setServerSslProfile_each_stored [OF all' this rest] first
    show ?thesis by simp
  next
    case (Some p)
    from setServerSslProfile_stored [OF tls _ one] Some ns
    have same: "s2 = stats" "filesRead m2 = filesRead m" "customProfiles m2 = customProfiles m"
      by auto
    then have "customProfiles m2 (defaultCertKey ns) = Some p" using Some by simp
    from setServerSslProfile_each_stored [OF all' this rest] same
    show ?thesis by simp
  qed
qed

text \<open>
  The key of the default server certificate has an empty resource name, so
  \<^verbatim>\<open>deleteUnusedProfiles\<close> keeps its profile only for a stored
  configuration whose virtual server has an empty name. When every stored
  configuration has a name, the collection that ends each sync removes the
  profile of the default certificate, for every namespace, whatever the
  virtual servers reference.
\<close>

lemma deleteUnusedProfiles_drops_default_cert:
  "list_all (\<lambda>e. case heap m (snd e) of
                    None \<Rightarrow> True
                  | Some rsCfg \<Rightarrow> VirtualServerName (Virtual rsCfg) \<noteq> '''') (resources m) \<Longrightarrow>
   customProfiles (deleteUnusedProfiles ReferencesProfile namespace m) (defaultCertKey ns) = None"
  by (auto simp: deleteUnusedProfiles_def defaultCertKey_def list_all_iff list_ex_iff
      split: option.splits)

text \<open>
  So a sync that meets a re-encrypt route without a certificate of its own,
  in a store whose configurations all have a name, reads the file, counts
  one update of a custom profile, and ends with the profile removed again:
  the next sync starts as this one did.
\<close>

lemma syncVirtualServer_reencrypt_every_sync:
  assumes tls: "route_TLS route = Some tls" "DestinationCACertificate tls = ''''"
    and cfg: "heap m rsCfg = Some cfg"
    and named: "\<forall>a c. heap m a = Some c \<longrightarrow> VirtualServerName (Virtual c) \<noteq> ''''"
    and absent: "customProfiles m (defaultCertKey (q_Namespace sKey)) = None"
    and readable: "fs defaultCertPath = Some data"
  shows "\<exists>m1. syncVirtualServer_reencrypt R fmt fs sKey rsCfg route m =
                Inr (\<lparr>vsFound = 0, vsUpdated = 0, vsDeleted = 0, cpUpdated = 1, dgUpdated = 0\<rparr>, m1) \<and>
              filesRead m1 = filesRead m @ [defaultCertPath] \<and>
              customProfiles m1 (defaultCertKey (q_Namespace sKey)) = None \<and>
              heap m1 rsCfg \<noteq> None \<and>
              (\<forall>a c. heap m1 a = Some c \<longrightarrow> VirtualServerName (Virtual c) \<noteq> '''')"
proof -
  let ?p = "\<lparr>pr_Name = defaultCertProfileName, pr_Partition = DEFAULT_PARTITION m,
             pr_Context = customProfileServer\<rparr>"
  let ?skey = "\<lparr>sec_Name = defaultCertProfileName, sec_Namespace = q_Namespace sKey,
                sec_ResourceName = ''''\<rparr>"
  let ?m2 = "m\<lparr>filesRead := filesRead m @ [defaultCertPath],
               customProfiles := (customProfiles m)(?skey \<mapsto> NewCustomProfile ?p data),
               heap := (heap m)(rsCfg \<mapsto> cfg\<lparr>Virtual := AddOrUpdateProfile ?p (Virtual cfg)\<rparr>)\<rparr>"
  let ?z = "\<lparr>vsFound = 0, vsUpdated = 0, vsDeleted = 0, cpUpdated = 0, dgUpdated = 0\<rparr>"
  have key: "defaultCertKey (q_Namespace sKey) = ?skey"
    by (simp add: defaultCertKey_def defaultCertProfileName_def)
  have one: "setServerSslProfile fmt fs ?z sKey rsCfg route m =
      Inr (?z\<lparr>cpUpdated := 1\<rparr>, ?m2)"
    using tls cfg absent readable unfolding key
    by (simp add: setServerSslProfile_def loadDefaultCert_def updateCfg_def bindP_def Let_def)
  have named2: "\<forall>a c. heap ?m2 a = Some c \<longrightarrow> VirtualServerName (Virtual c) \<noteq> ''''"
    using named cfg by (auto simp: AddOrUpdateProfile_def)
  have stored_named:
    "list_all (\<lambda>e. case heap ?m2 (snd e) of
                      None \<Rightarrow> True
                    | Some rsCfg \<Rightarrow> VirtualServerName (Virtual rsCfg) \<noteq> '''') (resources ?m2)"
    unfolding list_all_iff
  proof
    fix e
    assume "e \<in> set (resources ?m2)"
    show "case heap ?m2 (snd e) of
            None \<Rightarrow> True
          | Some rsCfg \<Rightarrow> VirtualServerName (Virtual rsCfg) \<noteq> ''''"
    proof (cases "heap ?m2 (snd e)")
      case None
      then show ?thesis by simp
    next
      case (Some c)
      with named2 have "VirtualServerName (Virtual c) \<noteq> ''''" by blast
      then show ?thesis using Some by simp
    qed
  qed
  have dropped: "customProfiles (deleteUnusedProfiles R (q_Namespace sKey) ?m2) ?skey = None"
    using deleteUnusedProfiles_drops_default_cert [OF stored_named, of R "q_Namespace sKey"
            "q_Namespace sKey"]
    unfolding key .
  have same: "heap (deleteUnusedProfiles R (q_Namespace sKey) ?m2) = heap ?m2"
      "filesRead (deleteUnusedProfiles R (q_Namespace sKey) ?m2) = filesRead ?m2"
    by (simp_all add: deleteUnusedProfiles_def)
  have run: "syncVirtualServer_reencrypt R fmt fs sKey rsCfg route m =
      Inr (?z\<lparr>cpUpdated := 1\<rparr>, deleteUnusedProfiles R (q_Namespace sKey) ?m2)"
    unfolding syncVirtualServer_reencrypt_def one by (simp add: bindP_def)
  show ?thesis
    unfolding key run using dropped same named2
    by (intro exI [of _ "deleteUnusedProfiles R (q_Namespace sKey) ?m2"]) simp
qed

lemma deleteUnusedProfiles_exampleStore:
  "heap m = [0 \<mapsto> cfg] \<Longrightarrow> VirtualServerName (Virtual cfg) = ''default_web'' \<Longrightarrow>
   resources m = [((exampleKey ''foo'' 80, ''default_web''), 0)] \<Longrightarrow>
   customProfiles m = [defaultCertKey ''default'' \<mapsto> p] \<Longrightarrow>
   deleteUnusedProfiles R ''default'' m = m\<lparr>customProfiles := Map.empty\<rparr>"
  by (auto simp: deleteUnusedProfiles_def defaultCertKey_def fun_eq_iff)

text \<open>
  Claim C8 at a concrete input. The namespace \<open>default\<close> has one re-encrypt
  route with an empty \<open>destinationCACertificate\<close>, the file of the default
  certificate can be read, and the configuration of the route is stored
  under the name \<open>default_web\<close>. In the first sync
  \<^verbatim>\<open>setServerSslProfile\<close> reads the file, stores the profile
  \<open>openshift_route_cluster_default-server-ssl\<close> and counts one; the
  collection of unused profiles that ends the sync removes the profile,
  although every virtual server is taken to reference it. The second sync
  reads the file again and counts one again: two reads in one namespace,
  and \<open>cpUpdated\<close> is one in each sync.
\<close>

theorem syncVirtualServer_reencrypt_reads_default_cert_again:
  "setServerSslProfile route_Name exampleFiles zeroStats (exampleQueueKey ''foo'') 0
      exampleRoute exampleStore =
     Inr (zeroStats\<lparr>cpUpdated := 1\<rparr>,
          afterFirstSync
            \<lparr>customProfiles :=
               [defaultCertKey ''default'' \<mapsto> NewCustomProfile defaultCertProfile ''CA'']\<rparr>) \<and>
   syncVirtualServer_reencrypt (\<lambda>v p. True) route_Name exampleFiles (exampleQueueKey ''foo'') 0
      exampleRoute exampleStore =
     Inr (zeroStats\<lparr>cpUpdated := 1\<rparr>, afterFirstSync) \<and>
   customProfiles afterFirstSync (defaultCertKey ''default'') = None \<and>
   syncVirtualServer_reencrypt (\<lambda>v p. True) route_Name exampleFiles (exampleQueueKey ''foo'') 0
      exampleRoute afterFirstSync =
     Inr (zeroStats\<lparr>cpUpdated := 1\<rparr>,
          afterFirstSync
            \<lparr>filesRead :=
               [''/var/run/secrets/kubernetes.io/serviceaccount/service-ca.crt'',
                ''/var/run/secrets/kubernetes.io/serviceaccount/service-ca.crt'']\<rparr>)"
proof -
  let ?stored = "afterFirstSync
            \<lparr>customProfiles :=
               [defaultCertKey ''default'' \<mapsto> NewCustomProfile defaultCertProfile ''CA'']\<rparr>"
  let ?path = "''/var/run/secrets/kubernetes.io/serviceaccount/service-ca.crt''"
  have first: "setServerSslProfile route_Name exampleFiles zeroStats (exampleQueueKey ''foo'') 0
      exampleRoute exampleStore = Inr (zeroStats\<lparr>cpUpdated := 1\<rparr>, ?stored)"
    by (simp add: setServerSslProfile_def loadDefaultCert_def exampleRoute_def exampleStore_def
        afterFirstSync_def defaultCertProfile_def defaultCertKey_def NewManager_def
        defaultParams_def exampleFiles_def defaultCertPath_def exampleQueueKey_def
        defaultCertProfileName_def updateCfg_def bindP_def Let_def zeroStats_def
        exampleConfig_def)
  have second: "setServerSslProfile route_Name exampleFiles zeroStats (exampleQueueKey ''foo'') 0
      exampleRoute afterFirstSync =
      Inr (zeroStats\<lparr>cpUpdated := 1\<rparr>, ?stored\<lparr>filesRead := [?path, ?path]\<rparr>)"
    by (simp add: setServerSslProfile_def loadDefaultCert_def exampleRoute_def exampleStore_def
        afterFirstSync_def defaultCertProfile_def defaultCertKey_def NewManager_def
        defaultParams_def exampleFiles_def defaultCertPath_def exampleQueueKey_def
        defaultCertProfileName_def updateCfg_def bindP_def Let_def zeroStats_def
        exampleConfig_def AddOrUpdateProfile_def exampleVirtual_def)
  have gc: "deleteUnusedProfiles (\<lambda>v p. True) ''default'' ?stored = afterFirstSync"
    by (subst deleteUnusedProfiles_exampleStore
          [where cfg = "(exampleConfig True
                          [examplePool ''foo'' 80 (Some [newMember ''10.0.0.1'' 30080])])
                       \<lparr>Virtual := AddOrUpdateProfile defaultCertProfile exampleVirtual\<rparr>"
             and p = "NewCustomProfile defaultCertProfile ''CA''"])
       (simp_all add: afterFirstSync_def exampleStore_def NewManager_def exampleConfig_def
          AddOrUpdateProfile_def exampleVirtual_def)
  have gc2: "deleteUnusedProfiles (\<lambda>v p. True) ''default'' (?stored\<lparr>filesRead := [?path, ?path]\<rparr>) =
      afterFirstSync\<lparr>filesRead := [?path, ?path]\<rparr>"
    by (subst deleteUnusedProfiles_exampleStore
          [where cfg = "(exampleConfig True
                          [examplePool ''foo'' 80 (Some [newMember ''10.0.0.1'' 30080])])
                       \<lparr>Virtual := AddOrUpdateProfile defaultCertProfile exampleVirtual\<rparr>"
             and p = "NewCustomProfile defaultCertProfile ''CA''"])
       (simp_all add: afterFirstSync_def exampleStore_def NewManager_def exampleConfig_def
          AddOrUpdateProfile_def exampleVirtual_def)
  have none: "customProfiles afterFirstSync (defaultCertKey ''default'') = None"
    by (simp add: afterFirstSync_def exampleStore_def NewManager_def)
  have ns: "q_Namespace (exampleQueueKey ''foo'') = ''default''"
    by (simp add: exampleQueueKey_def)
  have z: "\<lparr>vsFound = 0, vsUpdated = 0, vsDeleted = 0, cpUpdated = 0, dgUpdated = 0\<rparr> = zeroStats"
    by (simp add: zeroStats_def)
  have s1: "syncVirtualServer_reencrypt (\<lambda>v p. True) route_Name exampleFiles
      (exampleQueueKey ''foo'') 0 exampleRoute exampleStore =
     Inr (zeroStats\<lparr>cpUpdated := 1\<rparr>, afterFirstSync)"
    unfolding syncVirtualServer_reencrypt_def z first ns
    by (simp only: bindP_def sum.case fst_conv snd_conv gc)
  have s2: "syncVirtualServer_reencrypt (\<lambda>v p. True) route_Name exampleFiles
      (exampleQueueKey ''foo'') 0 exampleRoute afterFirstSync =
     Inr (zeroStats\<lparr>cpUpdated := 1\<rparr>, afterFirstSync\<lparr>filesRead := [?path, ?path]\<rparr>)"
    unfolding syncVirtualServer_reencrypt_def z second ns
    by (simp only: bindP_def sum.case fst_conv snd_conv gc2)
  from first s1 none s2 show ?thesis by blast
qed

subsection \<open>The result of handleIngressTls\<close>

lemma handleIngressTls_loop_append:
  "handleIngressTls_loop fmt secrets rsCfg ing (xs @ ys) c u m =
     bindP (handleIngressTls_loop fmt secrets rsCfg ing xs c u m)
       (\<lambda>r. handleIngressTls_loop fmt secrets rsCfg ing ys (fst (fst r)) (snd (fst r)) (snd r))"
proof (induction xs arbitrary: c u m)
  case Nil
  show ?case by (simp add: bindP_def)
next
  case (Cons x xs)
  show ?case
    by (simp add: Cons.IH bindP_def split: option.splits prod.splits)
qed

lemma handleSslProfile_heap: "heap (snd (handleSslProfile cfg secret ns m)) = heap m"
  by (simp add: handleSslProfile_def Let_def split: option.splits)

lemma handleIngressTls_loop_found:
  assumes "heap m1 rsCfg = Some cfg1"
    and "secrets (ing_Namespace ing) (SecretName tls) = Some secret"
  shows "\<exists>u2 m2. handleIngressTls_loop fmt secrets rsCfg ing [tls] c u m1 =
           Inr ((snd (fst (handleSslProfile cfg1 secret (ing_Namespace ing) m1)), u2), m2) \<and>
           heap m2 rsCfg \<noteq> None"
proof (cases "handleSslProfile cfg1 secret (ing_Namespace ing) m1")
  case (Pair r m2)
  then have h: "heap m2 = heap m1"
    using handleSslProfile_heap [of cfg1 secret "ing_Namespace ing" m1] by simp
  show ?thesis
    using assms Pair h by (cases r; cases "fst r") auto
qed

lemma handleIngressTls_loop_missing:
  "\<forall>t \<in> set ts. secrets (ing_Namespace ing) (SecretName t) = None \<Longrightarrow>
   heap m rsCfg \<noteq> None \<Longrightarrow>
   \<exists>m2. handleIngressTls_loop fmt secrets rsCfg ing ts c u m = Inr ((c, u), m2) \<and>
        customProfiles m2 = customProfiles m"
proof (induction ts arbitrary: m)
  case Nil
  show ?case by simp
next
  case (Cons t ts)
  from Cons.prems obtain cfg where cfg: "heap m rsCfg = Some cfg" by auto
  let ?m1 = "m\<lparr>heap := (heap m)(rsCfg \<mapsto>
                cfg\<lparr>Virtual := AddFrontendSslProfileName (fmt (SecretName t)) (Virtual cfg)\<rparr>)\<rparr>"
  have "\<exists>m2. handleIngressTls_loop fmt secrets rsCfg ing ts c u ?m1 = Inr ((c, u), m2) \<and>
        customProfiles m2 = customProfiles ?m1"
    using Cons.prems by (intro Cons.IH) simp_all
  then show ?case using Cons.prems cfg by simp
qed

lemma handleIngressTls_loop_runs:
  "heap m rsCfg \<noteq> None \<Longrightarrow>
   \<exists>c u m1. handleIngressTls_loop fmt secrets rsCfg ing ts c0 u0 m = Inr ((c, u), m1) \<and>
            heap m1 rsCfg \<noteq> None"
proof (induction ts arbitrary: c0 u0 m)
  case Nil
  then show ?case by simp
next
  case (Cons t ts)
  from Cons.prems obtain cfg where cfg: "heap m rsCfg = Some cfg" by auto
  show ?case
  proof (cases "secrets (ing_Namespace ing) (SecretName t)")
    case None
    let ?m1 = "m\<lparr>heap := (heap m)(rsCfg \<mapsto>
                cfg\<lparr>Virtual := AddFrontendSslProfileName (fmt (SecretName t)) (Virtual cfg)\<rparr>)\<rparr>"
    have "\<exists>c u m1. handleIngressTls_loop fmt secrets rsCfg ing ts c0 u0 ?m1 =
             Inr ((c, u), m1) \<and> heap m1 rsCfg \<noteq> None"
      by (rule Cons.IH) simp
    then show ?thesis using cfg None by simp
  next
    case (Some secret)
    obtain err c1 m' where r:
        "handleSslProfile cfg secret (ing_Namespace ing) m = ((err, c1), m')"
      by (metis prod.exhaust)
    then have h: "heap m' = heap m"
      using handleSslProfile_heap [of cfg secret "ing_Namespace ing" m] by simp
    show ?thesis
    proof (cases err)
      case None
      let ?m1 = "m'\<lparr>heap := (heap m')(rsCfg \<mapsto>
                  cfg\<lparr>Virtual := AddFrontendSslProfileName
                         (fmt (Partition (Virtual cfg) @ ''/'' @ SecretName t)) (Virtual cfg)\<rparr>)\<rparr>"
      have "\<exists>c u m1. handleIngressTls_loop fmt secrets rsCfg ing ts c1 (u0 \<or> c1) ?m1 =
               Inr ((c, u), m1) \<and> heap m1 rsCfg \<noteq> None"
        by (rule Cons.IH) simp
      then show ?thesis using cfg Some r None by simp
    next
      case (Some e)
      have "\<exists>c u m1. handleIngressTls_loop fmt secrets rsCfg ing ts c1 u0 m' =
               Inr ((c, u), m1) \<and> heap m1 rsCfg \<noteq> None"
        using cfg h by (intro Cons.IH) simp
      then show ?thesis using cfg \<open>secrets (ing_Namespace ing) (SecretName t) = Some secret\<close> r Some
        by simp
    qed
  qed
qed

text \<open>
  Claim C10, as the code has it. On the HTTPS virtual server of an Ingress
  with TLS entries, \<^verbatim>\<open>handleIngressTls\<close> returns \<open>cpUpdated\<close> and not the
  accumulated \<open>updateState\<close>: the status that \<^verbatim>\<open>handleSslProfile\<close>
  reports for the last entry whose Secret exists, whatever the entries
  before it changed. An entry whose Secret is missing is skipped and leaves
  that status as it is, so entries without a Secret that follow do not
  change the result; when no entry has a Secret the result is false. The
  caller adds one to its counter \<open>cpUpdated\<close> only if the result is true.
\<close>

theorem handleIngressTls_returns_last_status:
  "(ing_TLS ing = earlier @ [tls] @ missing \<and>
    (\<forall>t \<in> set missing. secrets (ing_Namespace ing) (SecretName t) = None) \<and>
    heap m rsCfg = Some cfg \<and>
    VirtualAddress (Virtual cfg) = Some va \<and> BindAddr va \<noteq> '''' \<and>
    va_Port va = ingressHttpsPort ing \<and>
    secrets (ing_Namespace ing) (SecretName tls) = Some secret \<longrightarrow>
      (\<exists>cpUpd updateState m1 cfg1 m2.
          handleIngressTls_loop fmt secrets rsCfg ing earlier False False m =
            Inr ((cpUpd, updateState), m1) \<and>
          heap m1 rsCfg = Some cfg1 \<and>
          handleIngressTls fmt secrets rsCfg ing m =
            Inr (snd (fst (handleSslProfile cfg1 secret (ing_Namespace ing) m1)), m2) \<and>
          syncIngresses_handleTls fmt secrets stats rsCfg ing m =
            Inr (if snd (fst (handleSslProfile cfg1 secret (ing_Namespace ing) m1))
                 then stats\<lparr>cpUpdated := cpUpdated stats + 1\<rparr> else stats, m2))) \<and>
   (ing_TLS ing \<noteq> [] \<and>
    (\<forall>t \<in> set (ing_TLS ing). secrets (ing_Namespace ing) (SecretName t) = None) \<and>
    heap m rsCfg = Some cfg \<and>
    VirtualAddress (Virtual cfg) = Some va \<and> BindAddr va \<noteq> '''' \<and>
    va_Port va = ingressHttpsPort ing \<longrightarrow>
      (\<exists>m2. handleIngressTls fmt secrets rsCfg ing m = Inr (False, m2) \<and>
            syncIngresses_handleTls fmt secrets stats rsCfg ing m = Inr (stats, m2)))"
proof (intro conjI impI)
  assume a: "ing_TLS ing = earlier @ [tls] @ missing \<and>
    (\<forall>t \<in> set missing. secrets (ing_Namespace ing) (SecretName t) = None) \<and>
    heap m rsCfg = Some cfg \<and>
    VirtualAddress (Virtual cfg) = Some va \<and> BindAddr va \<noteq> '''' \<and>
    va_Port va = ingressHttpsPort ing \<and>
    secrets (ing_Namespace ing) (SecretName tls) = Some secret"
  from a handleIngressTls_loop_runs [of m rsCfg fmt secrets ing earlier False False]
  obtain cpUpd updateState m1 where earlier:
      "handleIngressTls_loop fmt secrets rsCfg ing earlier False False m =
         Inr ((cpUpd, updateState), m1)" "heap m1 rsCfg \<noteq> None"
    by auto
  then obtain cfg1 where cfg1: "heap m1 rsCfg = Some cfg1" by auto
  let ?last = "snd (fst (handleSslProfile cfg1 secret (ing_Namespace ing) m1))"
  from a cfg1
    handleIngressTls_loop_found [of m1 rsCfg cfg1 secrets ing tls secret fmt cpUpd updateState]
  obtain u2 m2 where found:
      "handleIngressTls_loop fmt secrets rsCfg ing [tls] cpUpd updateState m1 =
         Inr ((?last, u2), m2)" "heap m2 rsCfg \<noteq> None"
    by blast
  from a found(2) handleIngressTls_loop_missing [of missing secrets ing m2 rsCfg fmt ?last u2]
  obtain m3 where rest:
      "handleIngressTls_loop fmt secrets rsCfg ing missing ?last u2 m2 = Inr ((?last, u2), m3)"
    by blast
  have "handleIngressTls_loop fmt secrets rsCfg ing (earlier @ [tls] @ missing) False False m =
      Inr ((?last, u2), m3)"
    using earlier(1) found(1) rest
    by (simp only: handleIngressTls_loop_append bindP_def sum.case fst_conv snd_conv)
  with a have loop:
      "handleIngressTls_loop fmt secrets rsCfg ing (ing_TLS ing) False False m =
         Inr ((?last, u2), m3)"
    by (simp del: handleIngressTls_loop.simps)
  from a have "0 \<noteq> length (ing_TLS ing)" by simp
  with a loop have res: "handleIngressTls fmt secrets rsCfg ing m = Inr (?last, m3)"
    by (simp add: handleIngressTls_def bindP_def)
  then have "syncIngresses_handleTls fmt secrets stats rsCfg ing m =
              Inr (if ?last then stats\<lparr>cpUpdated := cpUpdated stats + 1\<rparr> else stats, m3)"
    by (simp add: syncIngresses_handleTls_def bindP_def)
  with res earlier(1) cfg1
  show "\<exists>cpUpd updateState m1 cfg1 m2.
          handleIngressTls_loop fmt secrets rsCfg ing earlier False False m =
            Inr ((cpUpd, updateState), m1) \<and>
          heap m1 rsCfg = Some cfg1 \<and>
          handleIngressTls fmt secrets rsCfg ing m =
            Inr (snd (fst (handleSslProfile cfg1 secret (ing_Namespace ing) m1)), m2) \<and>
          syncIngresses_handleTls fmt secrets stats rsCfg ing m =
            Inr (if snd (fst (handleSslProfile cfg1 secret (ing_Namespace ing) m1))
                 then stats\<lparr>cpUpdated := cpUpdated stats + 1\<rparr> else stats, m2)"
    by blast
next
  assume b: "ing_TLS ing \<noteq> [] \<and>
    (\<forall>t \<in> set (ing_TLS ing). secrets (ing_Namespace ing) (SecretName t) = None) \<and>
    heap m rsCfg = Some cfg \<and>
    VirtualAddress (Virtual cfg) = Some va \<and> BindAddr va \<noteq> '''' \<and>
    va_Port va = ingressHttpsPort ing"
  from b handleIngressTls_loop_missing [of "ing_TLS ing" secrets ing m rsCfg fmt False False]
  obtain m2 where loop:
      "handleIngressTls_loop fmt secrets rsCfg ing (ing_TLS ing) False False m =
         Inr ((False, False), m2)"
    by auto
  from b have "0 \<noteq> length (ing_TLS ing)" by simp
  with b loop have res: "handleIngressTls fmt secrets rsCfg ing m = Inr (False, m2)"
    by (simp add: handleIngressTls_def bindP_def)
  then have "syncIngresses_handleTls fmt secrets stats rsCfg ing m = Inr (stats, m2)"
    by (simp add: syncIngresses_handleTls_def bindP_def)
  with res show "\<exists>m2. handleIngressTls fmt secrets rsCfg ing m = Inr (False, m2) \<and>
            syncIngresses_handleTls fmt secrets stats rsCfg ing m = Inr (stats, m2)"
    by blast
qed

text \<open>
  Claim C10 as stated fails when the Secret of the last entry is missing:
  the profile of the first entry is changed, the last entry has no Secret
  and no profile of its own to change, and the function returns true, the
  status of the first entry; the caller counts the change.
\<close>

theorem handleIngressTls_missing_last_returns_earlier_status:
  "ing_TLS missingLastIngress = [\<lparr>SecretName = ''web-tls''\<rparr>, \<lparr>SecretName = ''missing-tls''\<rparr>] \<and>
   exampleSecrets ''default'' ''missing-tls'' = None \<and>
   customProfiles tlsStore (exampleSecretKey ''web-tls'') =
     Some (exampleProfile ''web-tls'' ''OLD'') \<and>
   customProfiles tlsStore (exampleSecretKey ''missing-tls'') = None \<and>
   handleIngressTls (\<lambda>s. s) exampleSecrets 1 missingLastIngress tlsStore =
     Inr (True,
          tlsStore
            \<lparr>customProfiles :=
               [exampleSecretKey ''web-tls'' \<mapsto> exampleProfile ''web-tls'' ''CERT'',
                exampleSecretKey ''api-tls'' \<mapsto> exampleProfile ''api-tls'' ''CERT''],
             heap := [1 \<mapsto> exampleConfig False [examplePool ''foo'' 80 None]
                          \<lparr>Virtual := AddFrontendSslProfileName ''missing-tls''
                             (AddFrontendSslProfileName ''k8s/web-tls'' exampleVirtual)\<rparr>]\<rparr>) \<and>
   syncIngresses_handleTls (\<lambda>s. s) exampleSecrets zeroStats 1 missingLastIngress tlsStore =
     Inr (zeroStats\<lparr>cpUpdated := 1\<rparr>,
          tlsStore
            \<lparr>customProfiles :=
               [exampleSecretKey ''web-tls'' \<mapsto> exampleProfile ''web-tls'' ''CERT'',
                exampleSecretKey ''api-tls'' \<mapsto> exampleProfile ''api-tls'' ''CERT''],
             heap := [1 \<mapsto> exampleConfig False [examplePool ''foo'' 80 None]
                          \<lparr>Virtual := AddFrontendSslProfileName ''missing-tls''
                             (AddFrontendSslProfileName ''k8s/web-tls'' exampleVirtual)\<rparr>]\<rparr>)"
proof -
  have run: "handleIngressTls (\<lambda>s. s) exampleSecrets 1 missingLastIngress tlsStore =
     Inr (True,
          tlsStore
            \<lparr>customProfiles :=
               [exampleSecretKey ''web-tls'' \<mapsto> exampleProfile ''web-tls'' ''CERT'',
                exampleSecretKey ''api-tls'' \<mapsto> exampleProfile ''api-tls'' ''CERT''],
             heap := [1 \<mapsto> exampleConfig False [examplePool ''foo'' 80 None]
                          \<lparr>Virtual := AddFrontendSslProfileName ''missing-tls''
                             (AddFrontendSslProfileName ''k8s/web-tls'' exampleVirtual)\<rparr>]\<rparr>)"
    by (simp add: handleIngressTls_def bindP_def ingressHttpsPort_def DEFAULT_HTTPS_PORT_def
        tlsStore_def candidateOnly_def NewManager_def missingLastIngress_def
        exampleIngress_def exampleSecrets_def exampleSecret_def handleSslProfile_def
        exampleConfig_def exampleVirtual_def exampleSecretKey_def exampleProfile_def
        Let_def fun_upd_twist)
  show ?thesis
    using run
    by (simp add: syncIngresses_handleTls_def bindP_def zeroStats_def missingLastIngress_def
        exampleIngress_def exampleSecrets_def tlsStore_def exampleSecretKey_def)
qed

theorem handleIngressTls_returns_last_status_witness:
  "customProfiles tlsStore (exampleSecretKey ''web-tls'') =
     Some (exampleProfile ''web-tls'' ''OLD'') \<and>
   (\<exists>m1. handleIngressTls_loop (\<lambda>s. s) exampleSecrets 1 missingAfterIngress
            [\<lparr>SecretName = ''web-tls''\<rparr>] False False tlsStore = Inr ((True, True), m1) \<and>
          customProfiles m1 (exampleSecretKey ''web-tls'') =
            Some (exampleProfile ''web-tls'' ''CERT'')) \<and>
   exampleSecrets ''default'' ''missing-tls'' = None \<and>
   (\<exists>m2. handleIngressTls (\<lambda>s. s) exampleSecrets 1 missingAfterIngress tlsStore =
            Inr (False, m2) \<and>
          syncIngresses_handleTls (\<lambda>s. s) exampleSecrets zeroStats 1 missingAfterIngress
            tlsStore = Inr (zeroStats, m2)) \<and>
   (\<exists>m2. handleIngressTls (\<lambda>s. s) exampleSecrets 1 missingOnlyIngress tlsStore =
            Inr (False, m2) \<and>
          syncIngresses_handleTls (\<lambda>s. s) exampleSecrets zeroStats 1 missingOnlyIngress
            tlsStore = Inr (zeroStats, m2))"
proof -
  let ?cfg = "exampleConfig False [examplePool ''foo'' 80 None]"
  let ?cfg1 = "?cfg\<lparr>Virtual := AddFrontendSslProfileName ''k8s/web-tls'' exampleVirtual\<rparr>"
  let ?m1 = "tlsStore
       \<lparr>customProfiles :=
          [exampleSecretKey ''web-tls'' \<mapsto> exampleProfile ''web-tls'' ''CERT'',
           exampleSecretKey ''api-tls'' \<mapsto> exampleProfile ''api-tls'' ''CERT''],
        heap := [1 \<mapsto> ?cfg1]\<rparr>"
  let ?va = "\<lparr>BindAddr = ''10.0.0.10'', va_Port = 443\<rparr>"
  have old: "customProfiles tlsStore (exampleSecretKey ''web-tls'') =
      Some (exampleProfile ''web-tls'' ''OLD'')"
    by (simp add: tlsStore_def exampleSecretKey_def)
  have none: "exampleSecrets ''default'' ''missing-tls'' = None"
    by (simp add: exampleSecrets_def)
  have earlier: "handleIngressTls_loop (\<lambda>s. s) exampleSecrets 1 missingAfterIngress
            [\<lparr>SecretName = ''web-tls''\<rparr>] False False tlsStore = Inr ((True, True), ?m1)"
    by (simp add: tlsStore_def candidateOnly_def NewManager_def missingAfterIngress_def
        exampleIngress_def exampleSecrets_def exampleSecret_def handleSslProfile_def
        exampleConfig_def exampleVirtual_def exampleSecretKey_def exampleProfile_def
        Let_def fun_upd_twist)
  have new: "customProfiles ?m1 (exampleSecretKey ''web-tls'') =
      Some (exampleProfile ''web-tls'' ''CERT'')"
    by (simp add: exampleSecretKey_def)
  have h1: "heap ?m1 1 = Some ?cfg1" by simp
  have lastStatus: "snd (fst (handleSslProfile ?cfg1 (exampleSecret\<lparr>secret_Name := ''api-tls''\<rparr>)
      (ing_Namespace missingAfterIngress) ?m1)) = False"
    by (simp add: handleSslProfile_def exampleSecret_def exampleConfig_def exampleVirtual_def
        AddFrontendSslProfileName_def missingAfterIngress_def exampleIngress_def
        exampleSecretKey_def exampleProfile_def Let_def)
  have pre: "ing_TLS missingAfterIngress =
       [\<lparr>SecretName = ''web-tls''\<rparr>] @ [\<lparr>SecretName = ''api-tls''\<rparr>] @
       [\<lparr>SecretName = ''missing-tls''\<rparr>] \<and>
     (\<forall>t \<in> set [\<lparr>SecretName = ''missing-tls''\<rparr>].
        exampleSecrets (ing_Namespace missingAfterIngress) (SecretName t) = None) \<and>
     heap tlsStore 1 = Some ?cfg \<and>
     VirtualAddress (Virtual ?cfg) = Some ?va \<and> BindAddr ?va \<noteq> '''' \<and>
     va_Port ?va = ingressHttpsPort missingAfterIngress \<and>
     exampleSecrets (ing_Namespace missingAfterIngress) (SecretName \<lparr>SecretName = ''api-tls''\<rparr>) =
       Some (exampleSecret\<lparr>secret_Name := ''api-tls''\<rparr>)"
    by (simp add: missingAfterIngress_def exampleIngress_def tlsStore_def candidateOnly_def
        exampleConfig_def exampleVirtual_def ingressHttpsPort_def DEFAULT_HTTPS_PORT_def
        exampleSecrets_def)
  have pre2: "ing_TLS missingOnlyIngress \<noteq> [] \<and>
     (\<forall>t \<in> set (ing_TLS missingOnlyIngress).
        exampleSecrets (ing_Namespace missingOnlyIngress) (SecretName t) = None) \<and>
     heap tlsStore 1 = Some ?cfg \<and>
     VirtualAddress (Virtual ?cfg) = Some ?va \<and> BindAddr ?va \<noteq> '''' \<and>
     va_Port ?va = ingressHttpsPort missingOnlyIngress"
    by (simp add: missingOnlyIngress_def exampleIngress_def tlsStore_def candidateOnly_def
        exampleConfig_def exampleVirtual_def ingressHttpsPort_def DEFAULT_HTTPS_PORT_def
        exampleSecrets_def)
  from handleIngressTls_returns_last_status
         [of missingAfterIngress "[\<lparr>SecretName = ''web-tls''\<rparr>]" "\<lparr>SecretName = ''api-tls''\<rparr>"
             "[\<lparr>SecretName = ''missing-tls''\<rparr>]" exampleSecrets
             tlsStore 1 ?cfg ?va "exampleSecret\<lparr>secret_Name := ''api-tls''\<rparr>" "\<lambda>s. s"
             zeroStats]
       pre
  obtain cpUpd updateState m1 cfg1 m2 where r:
      "handleIngressTls_loop (\<lambda>s. s) exampleSecrets 1 missingAfterIngress
         [\<lparr>SecretName = ''web-tls''\<rparr>] False False tlsStore = Inr ((cpUpd, updateState), m1)"
      "heap m1 1 = Some cfg1"
      "handleIngressTls (\<lambda>s. s) exampleSecrets 1 missingAfterIngress tlsStore =
         Inr (snd (fst (handleSslProfile cfg1 (exampleSecret\<lparr>secret_Name := ''api-tls''\<rparr>)
                 (ing_Namespace missingAfterIngress) m1)), m2)"
      "syncIngresses_handleTls (\<lambda>s. s) exampleSecrets zeroStats 1 missingAfterIngress tlsStore =
         Inr (if snd (fst (handleSslProfile cfg1 (exampleSecret\<lparr>secret_Name := ''api-tls''\<rparr>)
                 (ing_Namespace missingAfterIngress) m1))
              then zeroStats\<lparr>cpUpdated := cpUpdated zeroStats + 1\<rparr> else zeroStats, m2)"
    by blast
  from r(1) earlier have m1: "m1 = ?m1" by simp
  from r(2) h1 have c1: "cfg1 = ?cfg1" unfolding m1 by simp
  from r(3,4) have first:
      "\<exists>m2. handleIngressTls (\<lambda>s. s) exampleSecrets 1 missingAfterIngress tlsStore =
            Inr (False, m2) \<and>
          syncIngresses_handleTls (\<lambda>s. s) exampleSecrets zeroStats 1 missingAfterIngress
            tlsStore = Inr (zeroStats, m2)"
    unfolding m1 c1 lastStatus by simp
  from handleIngressTls_returns_last_status
         [of missingOnlyIngress earlier tls missing exampleSecrets
             tlsStore 1 ?cfg ?va secret "\<lambda>s. s" zeroStats] pre2
  have second:
      "\<exists>m2. handleIngressTls (\<lambda>s. s) exampleSecrets 1 missingOnlyIngress tlsStore =
            Inr (False, m2) \<and>
          syncIngresses_handleTls (\<lambda>s. s) exampleSecrets zeroStats 1 missingOnlyIngress
            tlsStore = Inr (zeroStats, m2)"
    by blast
  from old earlier new none first second show ?thesis by blast
qed

end
